theory Spec2Isabelle
  imports Complex_Main
begin

section \<open>Numbers\<close>

text \<open>
  The model's numbers are JavaScript numbers. They are embedded as \<^typ>\<open>real\<close>: rounding
  and overflow of IEEE doubles are not part of the model. The one place where the code can
  meet a value that is not finite on finite inputs is the division by the total population;
  there the result is a \<^typ>\<open>real option\<close>, \<open>None\<close> standing for NaN and the two infinities
  (\<open>x / 0\<close> is one of the three for every \<open>x\<close>), and a sum with such a value is such a
  value again.
\<close>

definition js_div :: "real \<Rightarrow> real \<Rightarrow> real option" where
  "js_div x y = (if y = 0 then None else Some (x / y))"

definition js_add :: "real option \<Rightarrow> real option \<Rightarrow> real option" where
  "js_add a b = (case a of None \<Rightarrow> None
                 | Some x \<Rightarrow> (case b of None \<Rightarrow> None | Some y \<Rightarrow> Some (x + y)))"

text \<open>\<^verbatim>\<open>Number.isFinite(c) ? c : 0\<close>\<close>

definition finiteOrZero :: "real option \<Rightarrow> real" where
  "finiteOrZero c = (case c of None \<Rightarrow> 0 | Some v \<Rightarrow> v)"

section \<open>Enumerations\<close>

datatype seirIndex =
  susceptible | exposed | infectious | quarantined | hospitalized | icu
  | hospitalRecovery | fatalities | recoveredMild | recoveredHospitalized

text \<open>The numeric value of an enumeration member, used as an array index.\<close>

primrec seirIndex_val :: "seirIndex \<Rightarrow> nat" where
  "seirIndex_val susceptible = 0"
| "seirIndex_val exposed = 1"
| "seirIndex_val infectious = 2"
| "seirIndex_val quarantined = 3"
| "seirIndex_val hospitalized = 4"
| "seirIndex_val icu = 5"
| "seirIndex_val hospitalRecovery = 6"
| "seirIndex_val fatalities = 7"
| "seirIndex_val recoveredMild = 8"
| "seirIndex_val recoveredHospitalized = 9"

definition seirIndex_length :: nat where
  "seirIndex_length = 10"

definition seirIndexList :: "nat list" where
  "seirIndexList = [0, 1, 2, 3, 4, 5, 6, 7, 8, 9]"

datatype ageGroupIndex =
  ageUnknown | age0 | age20 | age45 | age55 | age65 | age75 | age85 | staff

primrec ageGroupIndex_val :: "ageGroupIndex \<Rightarrow> nat" where
  "ageGroupIndex_val ageUnknown = 0"
| "ageGroupIndex_val age0 = 1"
| "ageGroupIndex_val age20 = 2"
| "ageGroupIndex_val age45 = 3"
| "ageGroupIndex_val age55 = 4"
| "ageGroupIndex_val age65 = 5"
| "ageGroupIndex_val age75 = 6"
| "ageGroupIndex_val age85 = 7"
| "ageGroupIndex_val staff = 8"

definition ageGroupIndex_length :: nat where
  "ageGroupIndex_length = 9"

section \<open>Model constants\<close>

definition dIncubation :: real where "dIncubation = 2"
definition rExposedToInfectious :: real where "rExposedToInfectious = 1 / dIncubation"

definition pSymptomatic :: real where "pSymptomatic = 0.821"
definition dInfectious :: real where "dInfectious = 5.1"
definition rInfectiousToQuarantined :: real where
  "rInfectiousToQuarantined = pSymptomatic * (1 / dInfectious)"

definition dAsymptomaticInfectious :: real where "dAsymptomaticInfectious = 7"
definition rInfectiousToRecovered :: real where
  "rInfectiousToRecovered = (1 - pSymptomatic) * (1 / dAsymptomaticInfectious)"

definition pQuarantinedMild :: real where "pQuarantinedMild = 0.74"
definition dMildRecovery :: real where "dMildRecovery = 9.9"
definition rQuarantinedToRecovered :: real where
  "rQuarantinedToRecovered = pQuarantinedMild * (1 / dMildRecovery)"

definition dHospitalLag :: real where "dHospitalLag = 2.9"
definition rQuarantinedToHospitalized :: real where
  "rQuarantinedToHospitalized = (1 - pQuarantinedMild) * (1 / dHospitalLag)"

definition pIcu :: real where "pIcu = 0.3"
definition dIcuLag :: real where "dIcuLag = 2"
definition rHospitalizedToIcu :: real where "rHospitalizedToIcu = pIcu * (1 / dIcuLag)"

definition dHospitalized :: real where "dHospitalized = 22"

definition dPostIcuRecovery :: real where "dPostIcuRecovery = 12"
definition rHospitalRecoveryToRecovered :: real where
  "rHospitalRecoveryToRecovered = 1 / dPostIcuRecovery"

definition pIcuFatality :: real where "pIcuFatality = 0.15"
definition dIcuFatality :: real where "dIcuFatality = 6.3"
definition dIcuRecovery :: real where "dIcuRecovery = 5"
definition rIcuToFatality :: real where "rIcuToFatality = pIcuFatality * (1 / dIcuFatality)"
definition rIcuToHospitalRecovery :: real where
  "rIcuToHospitalRecovery = (1 - pIcuFatality) * (1 / dIcuRecovery)"

definition dHospitalizedFatality :: real where "dHospitalizedFatality = 8.3"

definition populationAdjustmentRatio :: real where "populationAdjustmentRatio = 0.0879"

definition pInitiallyInfectious :: real where "pInitiallyInfectious = 0.57"
definition pInitiallyQuarantined :: real where "pInitiallyQuarantined = 0.253"
definition pInitiallyHospitalized :: real where "pInitiallyHospitalized = 0.041"
definition pInitiallyIcu :: real where "pInitiallyIcu = 0.012"
definition pInitiallyHospitalRecovery :: real where "pInitiallyHospitalRecovery = 0.004"
definition pInitiallyRecoveredMild :: real where "pInitiallyRecoveredMild = 0.074"
definition pInitiallyRecoveredHospitalized :: real where
  "pInitiallyRecoveredHospitalized = 0.045"
definition pInitiallyDead :: real where "pInitiallyDead = 0.001"

section \<open>The single-group daily transition\<close>

record SimulationInputs =
  facilityDormitoryPct :: real

record SingleDayInputs = SimulationInputs +
  pFatalityRate :: real
  populationAdjustment :: real
  priorSimulation :: "real list"
  rateOfSpreadCells :: real
  rateOfSpreadDorms :: real
  simulateStaff :: bool
  totalInfectious :: real
  totalPopulation :: real
  totalSusceptibleIncarcerated :: real

text \<open>
  \<open>priorSimulation\<close> is read at the ten indices of \<open>seirIndex\<close>; the driver always passes
  a row of ten values, and the facts below about a shorter vector assume ten.

  The local \<open>susceptible\<close> of \<open>simulateOneDay\<close> after its branch on \<open>simulateStaff\<close>: for
  the incarcerated groups the day's population adjustment is added in proportion to the
  group's share of the susceptible pool, zero when the pool is (falsy) zero.
\<close>

definition susceptibleAdjusted :: "SingleDayInputs \<Rightarrow> real" where
  "susceptibleAdjusted inputs =
     (let s = priorSimulation inputs ! seirIndex_val susceptible in
      if simulateStaff inputs then s
      else s + (if totalSusceptibleIncarcerated inputs \<noteq> 0
                then populationAdjustment inputs * (s / totalSusceptibleIncarcerated inputs)
                else 0))"

text \<open>The local \<open>cSusceptible\<close> before the guard: \<open>None\<close> when it is not finite.\<close>

definition cSusceptibleComputed :: "SingleDayInputs \<Rightarrow> real option" where
  "cSusceptibleComputed inputs =
     (let rSusceptibleToExposedCells = rateOfSpreadCells inputs / dInfectious;
          rSusceptibleToExposedDorms = rateOfSpreadDorms inputs / dInfectious;
          facilityCellsPct = 1 - facilityDormitoryPct inputs;
          s = susceptibleAdjusted inputs
      in if simulateStaff inputs
         then js_div (rSusceptibleToExposedCells * totalInfectious inputs * s)
                (totalPopulation inputs)
         else js_add
                (js_div (facilityCellsPct * rSusceptibleToExposedCells
                           * totalInfectious inputs * s) (totalPopulation inputs))
                (js_div (facilityDormitoryPct inputs * rSusceptibleToExposedDorms
                           * totalInfectious inputs * s) (totalPopulation inputs)))"

text \<open>The local \<open>cSusceptible\<close> after the guard.\<close>

definition cSusceptible :: "SingleDayInputs \<Rightarrow> real" where
  "cSusceptible inputs = finiteOrZero (cSusceptibleComputed inputs)"

definition simulateOneDay :: "SingleDayInputs \<Rightarrow> real list" where
  "simulateOneDay inputs =
     (let rHospitalizedToFatality = pFatalityRate inputs * (1 / dHospitalizedFatality);
          pHospitalRecovery = 1 - pFatalityRate inputs - pIcu;
          rHospitalizedToRecovered = pHospitalRecovery * (1 / dHospitalized);
          s = susceptibleAdjusted inputs;
          e = priorSimulation inputs ! seirIndex_val exposed;
          i = priorSimulation inputs ! seirIndex_val infectious;
          q = priorSimulation inputs ! seirIndex_val quarantined;
          h = priorSimulation inputs ! seirIndex_val hospitalized;
          u = priorSimulation inputs ! seirIndex_val icu;
          hr = priorSimulation inputs ! seirIndex_val hospitalRecovery;
          f = priorSimulation inputs ! seirIndex_val fatalities;
          rm = priorSimulation inputs ! seirIndex_val recoveredMild;
          rh = priorSimulation inputs ! seirIndex_val recoveredHospitalized;
          c = cSusceptible inputs;
          susceptibleDelta = - c;
          exposedDelta = c - rExposedToInfectious * e;
          infectiousDelta = rExposedToInfectious * e
             - (rInfectiousToQuarantined + rInfectiousToRecovered) * i;
          quarantinedDelta = rInfectiousToQuarantined * i
             - (rQuarantinedToHospitalized + rQuarantinedToRecovered) * q;
          hospitalizedDelta = rQuarantinedToHospitalized * q
             - (rHospitalizedToIcu + rHospitalizedToRecovered) * h
             - rHospitalizedToFatality * h;
          icuDelta = rHospitalizedToIcu * h - rIcuToFatality * u
             - rIcuToHospitalRecovery * u;
          hospitalRecoveryDelta = rIcuToHospitalRecovery * u
             - rHospitalRecoveryToRecovered * hr;
          fatalitiesDelta = rIcuToFatality * u + rHospitalizedToFatality * h;
          recoveredMildDelta = rInfectiousToRecovered * i + rQuarantinedToRecovered * q;
          recoveredHospitalizedDelta = rHospitalizedToRecovered * h
             + rHospitalRecoveryToRecovered * hr
      in [max (s + susceptibleDelta) 0,
          e + exposedDelta,
          i + infectiousDelta,
          q + quarantinedDelta,
          h + hospitalizedDelta,
          u + icuDelta,
          hr + hospitalRecoveryDelta,
          f + fatalitiesDelta,
          rm + recoveredMildDelta,
          rh + recoveredHospitalizedDelta])"

section \<open>Transmission intensities\<close>

text \<open>
  Modelled from the spec: the type \<open>RateOfSpread\<close> of \<open>EpidemicModelContext\<close> is not among
  the sources. It is the categorical spread-intensity selector (low, moderate, high) whose
  members are the keys of \<open>R0Cells\<close> and \<open>R0Dorms\<close>.
\<close>

datatype RateOfSpread = low | moderate | high

primrec R0Cells :: "RateOfSpread \<Rightarrow> real" where
  "R0Cells low = 2.4"
| "R0Cells moderate = 3"
| "R0Cells high = 3.7"

primrec R0Dorms :: "RateOfSpread \<Rightarrow> real" where
  "R0Dorms low = 3"
| "R0Dorms moderate = 5"
| "R0Dorms high = 7"

definition rateOfSpreadCellsAdjustment :: real where
  "rateOfSpreadCellsAdjustment = 0.8"

definition rateOfSpreadDormsAdjustment :: real where
  "rateOfSpreadDormsAdjustment = 1.7"

text \<open>
  The two reassignments of \<open>rateOfSpreadCells\<close> and \<open>rateOfSpreadDorms\<close> at the start of
  \<open>getAllBracketCurves\<close>.
\<close>

definition adjustedRateOfSpreadCells :: "RateOfSpread \<Rightarrow> real \<Rightarrow> real" where
  "adjustedRateOfSpreadCells factor occupancyPct =
     R0Cells factor - (1 - occupancyPct) * (R0Cells factor - rateOfSpreadCellsAdjustment)"

definition adjustedRateOfSpreadDorms :: "RateOfSpread \<Rightarrow> real \<Rightarrow> real" where
  "adjustedRateOfSpreadDorms factor occupancyPct =
     R0Dorms factor - (1 - occupancyPct) * (R0Dorms factor - rateOfSpreadDormsAdjustment)"

section \<open>Population adjustment\<close>

definition adjustPopulations :: "real list \<Rightarrow> real \<Rightarrow> real list" where
  "adjustPopulations ageGroupPopulations populationTurnover =
     (let adjustRate = populationTurnover * populationAdjustmentRatio
      in map (\<lambda>(pop, i). if i = ageGroupIndex_val staff then pop else pop + pop * adjustRate)
           (zip ageGroupPopulations [0..<length ageGroupPopulations]))"

section \<open>Arrays\<close>

text \<open>
  The daily state matrix is an \<open>ndarray\<close> of shape \<open>[9, 10]\<close>: a list of rows (groups), each
  a list of compartment values. \<open>set\<close> with a row index outside the shape writes past the
  logical contents of the array and is not seen by any read of the matrix.
\<close>

type_synonym matrix = "real list list"

definition nd_zeros :: "nat \<Rightarrow> nat \<Rightarrow> matrix" where
  "nd_zeros rows cols = replicate rows (replicate cols 0)"

definition nd_get :: "matrix \<Rightarrow> nat \<Rightarrow> nat \<Rightarrow> real" where
  "nd_get m i j = m ! i ! j"

definition nd_set :: "matrix \<Rightarrow> nat \<Rightarrow> nat \<Rightarrow> real \<Rightarrow> matrix" where
  "nd_set m i j v = (if i < length m \<and> j < length (m ! i) then m[i := (m ! i)[j := v]] else m)"

text \<open>
  Modelled from the spec: the helpers of \<open>matrixUtils\<close> (\<open>getRowView\<close>, \<open>getColView\<close>,
  \<open>getAllValues\<close>, \<open>setRowValues\<close>) are not among the sources. A row view is the group's
  compartment vector, a column view one compartment across the groups, \<open>getAllValues\<close>
  lists a view's values in index order and \<open>setRowValues\<close> writes a group's new vector
  back into the matrix.
\<close>

definition getRowView :: "matrix \<Rightarrow> nat \<Rightarrow> real list" where
  "getRowView m row = m ! row"

definition getColView :: "matrix \<Rightarrow> nat \<Rightarrow> real list" where
  "getColView m col = map (\<lambda>r. r ! col) m"

definition getAllValues :: "real list \<Rightarrow> real list" where
  "getAllValues view = view"

definition setRowValues :: "matrix \<Rightarrow> nat \<Rightarrow> real list \<Rightarrow> matrix" where
  "setRowValues m row vals = m[row := vals]"

text \<open>
  The projection grid is an \<open>ndarray\<close> of shape \<open>[10, numDays, 9]\<close> over a zero-filled
  buffer: its shape and its cells; \<open>set\<close> outside the shape leaves every cell as it is.
\<close>

record ndarray3 =
  shape3 :: "nat \<times> nat \<times> nat"
  cells3 :: "nat \<Rightarrow> nat \<Rightarrow> nat \<Rightarrow> real"

definition nd3_zeros :: "nat \<Rightarrow> nat \<Rightarrow> nat \<Rightarrow> ndarray3" where
  "nd3_zeros n0 n1 n2 = \<lparr>shape3 = (n0, n1, n2), cells3 = (\<lambda>i j k. 0)\<rparr>"

definition nd3_get :: "ndarray3 \<Rightarrow> nat \<Rightarrow> nat \<Rightarrow> nat \<Rightarrow> real" where
  "nd3_get g i j k = cells3 g i j k"

definition nd3_set :: "ndarray3 \<Rightarrow> nat \<Rightarrow> nat \<Rightarrow> nat \<Rightarrow> real \<Rightarrow> ndarray3" where
  "nd3_set g i j k v =
     (case shape3 g of (n0, n1, n2) \<Rightarrow>
        if i < n0 \<and> j < n1 \<and> k < n2
        then g\<lparr>cells3 := (\<lambda>a b c. if a = i \<and> b = j \<and> c = k then v else cells3 g a b c)\<rparr>
        else g)"

text \<open>
  \<open>xs[i] = v\<close> on a JavaScript array: an index at or past the length extends the array.
  The slots of \<open>new Array(n)\<close> are written as 0 here; the driver writes every slot below
  \<open>numDays\<close> before it reads it.
\<close>

definition js_set :: "real list \<Rightarrow> nat \<Rightarrow> real \<Rightarrow> real list" where
  "js_set xs i v =
     (if i < length xs then xs[i := v] else xs @ replicate (i - length xs) 0 @ [v])"

section \<open>Planned releases\<close>

text \<open>
  Modelled from the spec: the type \<open>PlannedReleases\<close> of \<open>EpidemicModelContext\<close> is not
  among the sources. It is a list of records with a calendar date and a signed headcount,
  either of which may be missing.
  A planned release has an optional date and an optional count. Dates are calendar days,
  numbered by the integers; \<open>today\<close> is the calendar day of \<open>Date.now()\<close>, read once by
  \<open>getAllBracketCurves\<close> and a parameter here.
\<close>

record PlannedRelease =
  date :: "int option"
  count :: "real option"

definition differenceInCalendarDays :: "int \<Rightarrow> int \<Rightarrow> int" where
  "differenceInCalendarDays dateLeft dateRight = dateLeft - dateRight"

text \<open>
  One round of the \<open>forEach\<close> over the planned releases. \<open>!count\<close> holds for a count that
  is undefined or zero. A negative \<open>dateIndex\<close> passes the comparison with the length, and
  the assignment then sets a property named by the negative number: no element of the
  sequence changes.
\<close>

definition applyRelease :: "int \<Rightarrow> real list \<Rightarrow> PlannedRelease \<Rightarrow> real list" where
  "applyRelease today changes r =
     (case count r of
        None \<Rightarrow> changes
      | Some c \<Rightarrow>
          if c = 0 then changes
          else (case date r of
                  None \<Rightarrow> changes
                | Some d \<Rightarrow>
                    let dateIndex = differenceInCalendarDays d today
                    in if dateIndex < int (length changes)
                       then (if 0 \<le> dateIndex
                             then changes[nat dateIndex := changes ! nat dateIndex - c]
                             else changes)
                       else changes))"

definition resolveChanges :: "int \<Rightarrow> nat \<Rightarrow> PlannedRelease list option \<Rightarrow> real list" where
  "resolveChanges today numDays plannedReleases =
     foldl (applyRelease today) (replicate numDays 0)
       (case plannedReleases of None \<Rightarrow> [] | Some rs \<Rightarrow> rs)"

section \<open>The projection driver\<close>

record CurveProjectionInputs = SimulationInputs +
  ageGroupPopulations :: "real list"
  numDays :: nat
  ageGroupInitiallyInfected :: "real list"
  facilityOccupancyPct :: real
  rateOfSpreadFactor :: RateOfSpread
  plannedReleases :: "PlannedRelease list option"
  populationTurnover :: real

record CurveProjection =
  totalPopulationByDay :: "real list"
  projectionGrid :: ndarray3
  expectedPopulationChanges :: "real list"

definition ageGroupFatalityRates :: "real list" where
  "ageGroupFatalityRates = [0.026, 0, 0.0015, 0.0065, 0.02, 0.038, 0.074, 0.1885, 0.026]"

text \<open>
  \<open>updateProjectionDay\<close>: copy the state matrix into the grid at one day. The two ranges
  are the shape of the state matrix, nine groups by ten compartments.
\<close>

definition updateProjectionDay :: "ndarray3 \<Rightarrow> nat \<Rightarrow> matrix \<Rightarrow> ndarray3" where
  "updateProjectionDay grid day data =
     foldl (\<lambda>g bracket.
              foldl (\<lambda>g' compartment.
                       nd3_set g' compartment day bracket (nd_get data bracket compartment))
                g [0..<seirIndex_length])
       grid [0..<ageGroupIndex_length]"

text \<open>The body of the \<open>forEach\<close> that assigns one group to its initial compartments.\<close>

definition assignInitial :: "matrix \<Rightarrow> real \<Rightarrow> real \<Rightarrow> nat \<Rightarrow> matrix" where
  "assignInitial st0 pop cases index =
     (let e = cases * rExposedToInfectious;
          st1 = nd_set st0 index (seirIndex_val exposed) e;
          st2 = nd_set st1 index (seirIndex_val susceptible) (pop - cases - e);
          st3 = nd_set st2 index (seirIndex_val infectious) (cases * pInitiallyInfectious);
          st4 = nd_set st3 index (seirIndex_val quarantined) (cases * pInitiallyQuarantined);
          st5 = nd_set st4 index (seirIndex_val hospitalized) (cases * pInitiallyHospitalized);
          st6 = nd_set st5 index (seirIndex_val icu) (cases * pInitiallyIcu);
          st7 = nd_set st6 index (seirIndex_val hospitalRecovery)
                  (cases * pInitiallyHospitalRecovery);
          st8 = nd_set st7 index (seirIndex_val recoveredMild)
                  (cases * pInitiallyRecoveredMild);
          st9 = nd_set st8 index (seirIndex_val recoveredHospitalized)
                  (cases * pInitiallyRecoveredHospitalized)
      in nd_set st9 index (seirIndex_val fatalities) (cases * pInitiallyDead))"

text \<open>The \<open>forEach\<close> over \<open>zip(ageGroupPopulations, ageGroupInitiallyInfected)\<close>.\<close>

fun assignAll :: "matrix \<Rightarrow> (real \<times> real) list \<Rightarrow> nat \<Rightarrow> matrix" where
  "assignAll st [] index = st"
| "assignAll st ((pop, cases) # rest) index =
     assignAll (assignInitial st pop cases index) rest (Suc index)"

definition initialState :: "real list \<Rightarrow> real list \<Rightarrow> matrix" where
  "initialState populations initiallyInfected =
     assignAll (nd_zeros ageGroupIndex_length seirIndex_length)
       (zip populations initiallyInfected) 0"

text \<open>
  What one day of the loop does not change: the horizon, the dormitory fraction, the two
  adjusted transmission intensities and the resolved adjustments.
\<close>

record DayEnv =
  envNumDays :: nat
  envDormitoryPct :: real
  envRateOfSpreadCells :: real
  envRateOfSpreadDorms :: real
  envChanges :: "real list"

text \<open>The object passed to \<open>simulateOneDay\<close> for one group, \<open>row\<close> being its prior row.\<close>

definition groupInputs ::
  "DayEnv \<Rightarrow> nat \<Rightarrow> real \<Rightarrow> real \<Rightarrow> real \<Rightarrow> real list \<Rightarrow> real \<Rightarrow> nat \<Rightarrow> SingleDayInputs" where
  "groupInputs env day totPop totInf totSus row rate ageGroup =
     \<lparr>facilityDormitoryPct = envDormitoryPct env,
      pFatalityRate = rate,
      populationAdjustment = envChanges env ! day,
      priorSimulation = row,
      rateOfSpreadCells = envRateOfSpreadCells env,
      rateOfSpreadDorms = envRateOfSpreadDorms env,
      simulateStaff = (ageGroup = ageGroupIndex_val staff),
      totalInfectious = totInf,
      totalPopulation = totPop,
      totalSusceptibleIncarcerated = totSus\<rparr>"

text \<open>
  The \<open>forEach\<close> over \<open>ageGroupFatalityRates\<close>: each group's row is replaced by its
  projection, in the order of the groups. The three totals were taken before the first
  row was replaced.
\<close>

fun simulateGroups ::
  "DayEnv \<Rightarrow> nat \<Rightarrow> real \<Rightarrow> real \<Rightarrow> real \<Rightarrow> matrix \<Rightarrow> real list \<Rightarrow> nat \<Rightarrow> matrix" where
  "simulateGroups env day totPop totInf totSus st [] ageGroup = st"
| "simulateGroups env day totPop totInf totSus st (rate # rates) ageGroup =
     (let projectionForAgeGroup = simulateOneDay
            (groupInputs env day totPop totInf totSus
               (getAllValues (getRowView st ageGroup)) rate ageGroup)
      in simulateGroups env day totPop totInf totSus
           (setRowValues st ageGroup projectionForAgeGroup) rates (Suc ageGroup))"

text \<open>The values of a column at every index but the staff's.\<close>

definition withoutStaff :: "real list \<Rightarrow> real list" where
  "withoutStaff vs =
     map fst (filter (\<lambda>(v, i). i \<noteq> ageGroupIndex_val staff) (zip vs [0..<length vs]))"

text \<open>The two sums over the prior day's matrix at the head of the loop body.\<close>

definition totalInfectiousOf :: "matrix \<Rightarrow> real" where
  "totalInfectiousOf st =
     sum_list (getAllValues (getColView st (seirIndex_val infectious)))"

definition totalSusceptibleIncarceratedOf :: "matrix \<Rightarrow> real" where
  "totalSusceptibleIncarceratedOf st =
     sum_list (withoutStaff (getAllValues (getColView st (seirIndex_val susceptible))))"

text \<open>
  The new state matrix of one pass through the loop body, \<open>totPop\<close> being
  \<open>totalPopulationByDay[day - 1]\<close>.
\<close>

definition simulateDay :: "DayEnv \<Rightarrow> nat \<Rightarrow> real \<Rightarrow> matrix \<Rightarrow> matrix" where
  "simulateDay env day totPop st =
     simulateGroups env day totPop (totalInfectiousOf st)
       (totalSusceptibleIncarceratedOf st) st ageGroupFatalityRates 0"

text \<open>
  The \<open>while\<close> loop over the days, from \<open>day\<close> on. It starts at day 1 and runs while
  \<open>day < numDays\<close>, so that \<open>day - 1\<close> and \<open>day\<close> are indices of the population sequence
  and of the resolved adjustments.
\<close>

function dayLoop ::
  "DayEnv \<Rightarrow> nat \<Rightarrow> matrix \<Rightarrow> real list \<Rightarrow> ndarray3 \<Rightarrow> matrix \<times> real list \<times> ndarray3" where
  "dayLoop env day st tpbd grid =
     (if day < envNumDays env
      then (let totPop = tpbd ! (day - 1);
                st' = simulateDay env day totPop st;
                grid' = updateProjectionDay grid day st';
                tpbd' = js_set tpbd day (totPop + envChanges env ! day)
            in dayLoop env (Suc day) st' tpbd' grid')
      else (st, tpbd, grid))"
  by pat_completeness auto
termination
  by (relation "measure (\<lambda>(env, day, st, tpbd, grid). envNumDays env - day)") auto

declare dayLoop.simps [simp del]

text \<open>
  What \<open>getAllBracketCurves\<close> has computed when it enters the loop: the adjusted
  populations, the loop's constants and the day-zero state.
\<close>

definition adjustedPopulations :: "CurveProjectionInputs \<Rightarrow> real list" where
  "adjustedPopulations inputs =
     adjustPopulations (ageGroupPopulations inputs) (populationTurnover inputs)"

definition dayEnv :: "int \<Rightarrow> CurveProjectionInputs \<Rightarrow> DayEnv" where
  "dayEnv today inputs =
     \<lparr>envNumDays = numDays inputs,
      envDormitoryPct = facilityDormitoryPct inputs,
      envRateOfSpreadCells =
        adjustedRateOfSpreadCells (rateOfSpreadFactor inputs) (facilityOccupancyPct inputs),
      envRateOfSpreadDorms =
        adjustedRateOfSpreadDorms (rateOfSpreadFactor inputs) (facilityOccupancyPct inputs),
      envChanges = resolveChanges today (numDays inputs) (plannedReleases inputs)\<rparr>"

definition dayZeroState :: "CurveProjectionInputs \<Rightarrow> matrix" where
  "dayZeroState inputs =
     initialState (adjustedPopulations inputs) (ageGroupInitiallyInfected inputs)"

definition getAllBracketCurves :: "int \<Rightarrow> CurveProjectionInputs \<Rightarrow> CurveProjection" where
  "getAllBracketCurves today inputs =
     (let projectionGrid0 =
            nd3_zeros (length seirIndexList) (numDays inputs) ageGroupIndex_length;
          env = dayEnv today inputs;
          tpbd0 = js_set (replicate (numDays inputs) 0) 0
                    (sum_list (adjustedPopulations inputs));
          st0 = dayZeroState inputs;
          grid0 = updateProjectionDay projectionGrid0 0 st0
      in (case dayLoop env 1 st0 tpbd0 grid0 of
            (st, tpbd, grid) \<Rightarrow>
              \<lparr>totalPopulationByDay = tpbd,
               projectionGrid = grid,
               expectedPopulationChanges = envChanges env\<rparr>))"

section \<open>The trajectory of a run\<close>

text \<open>
  The state matrix and the total population the loop holds after the pass for day \<open>d\<close>,
  by recursion on the day; \<open>grid_runState\<close> and \<open>tpbd_runPop\<close> below show that the
  grid and the population sequence of \<open>getAllBracketCurves\<close> hold exactly these values.
\<close>

primrec popAt :: "real list \<Rightarrow> real \<Rightarrow> nat \<Rightarrow> real" where
  "popAt changes tp0 0 = tp0"
| "popAt changes tp0 (Suc d) = popAt changes tp0 d + changes ! Suc d"

primrec stateAt :: "DayEnv \<Rightarrow> real \<Rightarrow> matrix \<Rightarrow> nat \<Rightarrow> matrix" where
  "stateAt env tp0 st0 0 = st0"
| "stateAt env tp0 st0 (Suc d) =
     simulateDay env (Suc d) (popAt (envChanges env) tp0 d) (stateAt env tp0 st0 d)"

definition runPop :: "int \<Rightarrow> CurveProjectionInputs \<Rightarrow> nat \<Rightarrow> real" where
  "runPop today inputs d =
     popAt (envChanges (dayEnv today inputs)) (sum_list (adjustedPopulations inputs)) d"

definition runState :: "int \<Rightarrow> CurveProjectionInputs \<Rightarrow> nat \<Rightarrow> matrix" where
  "runState today inputs d =
     stateAt (dayEnv today inputs) (sum_list (adjustedPopulations inputs))
       (dayZeroState inputs) d"

text \<open>
  The object the loop passes to \<open>simulateOneDay\<close> for group \<open>g\<close> in its pass for day \<open>d\<close>
  (from day 1 on): the group's row and the three totals of day \<open>d - 1\<close>, the group's
  fatality rate and the adjustment of day \<open>d\<close>.
\<close>

definition loopInputs :: "int \<Rightarrow> CurveProjectionInputs \<Rightarrow> nat \<Rightarrow> nat \<Rightarrow> SingleDayInputs" where
  "loopInputs today inputs d g =
     groupInputs (dayEnv today inputs) d (runPop today inputs (d - 1))
       (totalInfectiousOf (runState today inputs (d - 1)))
       (totalSusceptibleIncarceratedOf (runState today inputs (d - 1)))
       (runState today inputs (d - 1) ! g) (ageGroupFatalityRates ! g) g"

text \<open>A group's day-zero compartment vector, in the order of \<open>seirIndex\<close>.\<close>

definition initialRow :: "real \<Rightarrow> real \<Rightarrow> real list" where
  "initialRow pop cases =
     [pop - cases - cases * rExposedToInfectious,
      cases * rExposedToInfectious,
      cases * pInitiallyInfectious,
      cases * pInitiallyQuarantined,
      cases * pInitiallyHospitalized,
      cases * pInitiallyIcu,
      cases * pInitiallyHospitalRecovery,
      cases * pInitiallyDead,
      cases * pInitiallyRecoveredMild,
      cases * pInitiallyRecoveredHospitalized]"

section \<open>Notions used to state the properties\<close>

text \<open>
  What one planned release takes from day \<open>i\<close>: its count when it has a count and a date
  and the date is \<open>i\<close> calendar days after \<open>today\<close>, and nothing otherwise.
\<close>

definition releasedOn :: "int \<Rightarrow> nat \<Rightarrow> PlannedRelease \<Rightarrow> real" where
  "releasedOn today i r =
     (case count r of
        None \<Rightarrow> 0
      | Some c \<Rightarrow> (case date r of
                    None \<Rightarrow> 0
                  | Some d \<Rightarrow> if differenceInCalendarDays d today = int i then c else 0))"

text \<open>A planned release with its date moved by \<open>k\<close> days.\<close>

definition shiftRelease :: "int \<Rightarrow> PlannedRelease \<Rightarrow> PlannedRelease" where
  "shiftRelease k r = r\<lparr>date := map_option (\<lambda>d. d + k) (date r)\<rparr>"

text \<open>
  A facility of 1000 incarcerated people of unknown age, 100 of them infected, and a staff
  of 100, all housed in dormitories at full occupancy, projected over five days.
\<close>

definition sampleInputs :: CurveProjectionInputs where
  "sampleInputs =
     \<lparr>facilityDormitoryPct = 1,
      ageGroupPopulations = [1000, 0, 0, 0, 0, 0, 0, 0, 100],
      numDays = 5,
      ageGroupInitiallyInfected = [100, 0, 0, 0, 0, 0, 0, 0, 0],
      facilityOccupancyPct = 1,
      rateOfSpreadFactor = high,
      plannedReleases = None,
      populationTurnover = 0\<rparr>"


text \<open>The same facility over two days, with 50 people released on the day after \<open>today = 0\<close>.\<close>

definition sampleRelease :: CurveProjectionInputs where
  "sampleRelease =
     sampleInputs\<lparr>numDays := 2,
       plannedReleases := Some [\<lparr>date = Some 1, count = Some 50\<rparr>]\<rparr>"

section \<open>Unfolding the constants\<close>

lemmas rate_defs =
  dIncubation_def rExposedToInfectious_def pSymptomatic_def dInfectious_def
  rInfectiousToQuarantined_def dAsymptomaticInfectious_def rInfectiousToRecovered_def
  pQuarantinedMild_def dMildRecovery_def rQuarantinedToRecovered_def dHospitalLag_def
  rQuarantinedToHospitalized_def pIcu_def dIcuLag_def rHospitalizedToIcu_def
  dHospitalized_def dPostIcuRecovery_def rHospitalRecoveryToRecovered_def
  pIcuFatality_def dIcuFatality_def dIcuRecovery_def rIcuToFatality_def
  rIcuToHospitalRecovery_def dHospitalizedFatality_def

lemmas initial_defs =
  pInitiallyInfectious_def pInitiallyQuarantined_def pInitiallyHospitalized_def
  pInitiallyIcu_def pInitiallyHospitalRecovery_def pInitiallyRecoveredMild_def
  pInitiallyRecoveredHospitalized_def pInitiallyDead_def

section \<open>Facts about the daily transition\<close>


lemma length_simulateOneDay: "length (simulateOneDay inputs) = 10"
  by (simp add: simulateOneDay_def Let_def)

lemma sum_simulateOneDay:
  assumes "length (priorSimulation inputs) = 10"
  shows "sum_list (simulateOneDay inputs) =
     sum_list (priorSimulation inputs) - priorSimulation inputs ! 0
       + cSusceptible inputs + max (susceptibleAdjusted inputs - cSusceptible inputs) 0"
proof -
  obtain a0 a1 a2 a3 a4 a5 a6 a7 a8 a9 where p: "priorSimulation inputs = [a0,a1,a2,a3,a4,a5,a6,a7,a8,a9]"
    using assms by (auto simp: length_Suc_conv eval_nat_numeral)
  show ?thesis
    by (simp add: simulateOneDay_def Let_def p algebra_simps)
qed

section \<open>Facts about the arrays\<close>

lemma shape3_nd3_set [simp]: "shape3 (nd3_set g i j k v) = shape3 g"
  by (simp add: nd3_set_def split: prod.splits)

lemma cells3_nd3_set:
  "cells3 (nd3_set g i j k v) a b c =
     (if a = i \<and> b = j \<and> c = k \<and> i < fst (shape3 g) \<and> j < fst (snd (shape3 g))
         \<and> k < snd (snd (shape3 g)) then v else cells3 g a b c)"
  by (simp add: nd3_set_def split: prod.splits)

lemma shape3_fold_compartments [simp]:
  "shape3 (foldl (\<lambda>g' c. nd3_set g' c day b (f c)) g [0..<n]) = shape3 g"
  by (induction n) simp_all

lemma cells3_fold_compartments:
  "cells3 (foldl (\<lambda>g' c. nd3_set g' c day b (f c)) g [0..<n]) a d k =
     (if a < n \<and> d = day \<and> k = b \<and> a < fst (shape3 g) \<and> day < fst (snd (shape3 g))
         \<and> b < snd (snd (shape3 g)) then f a else cells3 g a d k)"
  by (induction n) (auto simp: cells3_nd3_set less_Suc_eq)

lemma shape3_fold_brackets [simp]:
  "shape3 (foldl (\<lambda>g b. foldl (\<lambda>g' c. nd3_set g' c day b (f b c)) g [0..<m]) g0 [0..<n])
     = shape3 g0"
  by (induction n) simp_all

lemma cells3_fold_brackets:
  "cells3 (foldl (\<lambda>g b. foldl (\<lambda>g' c. nd3_set g' c day b (f b c)) g [0..<m]) g0 [0..<n]) a d k =
     (if a < m \<and> k < n \<and> d = day \<and> a < fst (shape3 g0) \<and> day < fst (snd (shape3 g0))
         \<and> k < snd (snd (shape3 g0)) then f k a else cells3 g0 a d k)"
  by (induction n) (auto simp: cells3_fold_compartments less_Suc_eq)

lemma shape3_updateProjectionDay [simp]:
  "shape3 (updateProjectionDay g day data) = shape3 g"
  by (simp add: updateProjectionDay_def)

lemma cells3_updateProjectionDay:
  "cells3 (updateProjectionDay g day data) a d k =
     (if a < 10 \<and> k < 9 \<and> d = day \<and> a < fst (shape3 g) \<and> day < fst (snd (shape3 g))
         \<and> k < snd (snd (shape3 g)) then data ! k ! a else cells3 g a d k)"
  by (simp add: updateProjectionDay_def cells3_fold_brackets nd_get_def
      seirIndex_length_def ageGroupIndex_length_def)

section \<open>Facts about the initial state\<close>

lemma length_initialRow [simp]: "length (initialRow pop cases) = 10"
  by (simp add: initialRow_def)

lemma nd_set_row:
  "i < length st \<Longrightarrow> j < length (st ! i) \<Longrightarrow> nd_set st i j v = st[i := (st ! i)[j := v]]"
  by (simp add: nd_set_def)

lemma ten_updates:
  "[a0,a1,a2,a3,a4,a5,a6,a7,a8,a9::real][1 := b1, 0 := b0, 2 := b2, 3 := b3, 4 := b4, 5 := b5,
      6 := b6, 8 := b8, 9 := b9, 7 := b7] = [b0,b1,b2,b3,b4,b5,b6,b7,b8,b9]"
  by (simp add: eval_nat_numeral)

lemma assignInitial_row:
  assumes "index < length st" "length (st ! index) = 10"
  shows "assignInitial st pop cases index = st[index := initialRow pop cases]"
proof -
  obtain a0 a1 a2 a3 a4 a5 a6 a7 a8 a9 where p: "st ! index = [a0,a1,a2,a3,a4,a5,a6,a7,a8,a9]"
    using assms(2) by (auto simp: length_Suc_conv eval_nat_numeral)
  have "assignInitial st pop cases index =
      st[index := (st ! index)[1 := cases * rExposedToInfectious,
         0 := pop - cases - cases * rExposedToInfectious,
         2 := cases * pInitiallyInfectious, 3 := cases * pInitiallyQuarantined,
         4 := cases * pInitiallyHospitalized, 5 := cases * pInitiallyIcu,
         6 := cases * pInitiallyHospitalRecovery, 8 := cases * pInitiallyRecoveredMild,
         9 := cases * pInitiallyRecoveredHospitalized, 7 := cases * pInitiallyDead]]"
    unfolding assignInitial_def Let_def seirIndex_val.simps
    using assms by (simp add: nd_set_row)
  also have "\<dots> = st[index := initialRow pop cases]"
    unfolding p ten_updates initialRow_def ..
  finally show ?thesis .
qed

lemma assignInitial_outside:
  "\<not> index < length st \<Longrightarrow> assignInitial st pop cases index = st"
  by (simp add: assignInitial_def Let_def nd_set_def)

lemma assignInitial_eq:
  assumes "\<forall>r \<in> set st. length r = 10"
  shows "assignInitial st pop cases index = st[index := initialRow pop cases]"
proof (cases "index < length st")
  case True
  then show ?thesis using assms by (simp add: assignInitial_row)
next
  case False
  then show ?thesis by (simp add: assignInitial_outside list_update_beyond)
qed

lemma rows_list_update:
  "\<forall>r \<in> set st. length r = n \<Longrightarrow> length v = n \<Longrightarrow> \<forall>r \<in> set (st[i := v]). length r = n"
  by (metis insert_iff set_update_subset_insert subsetD)

lemma assignAll_rows:
  "\<forall>r \<in> set st. length r = 10 \<Longrightarrow>
   length (assignAll st ps k) = length st \<and> (\<forall>r \<in> set (assignAll st ps k). length r = 10) \<and>
   (\<forall>j < length st. assignAll st ps k ! j =
      (if k \<le> j \<and> j < k + length ps
       then initialRow (fst (ps ! (j - k))) (snd (ps ! (j - k))) else st ! j))"
proof (induction ps arbitrary: st k)
  case Nil
  then show ?case by auto
next
  case (Cons p ps)
  obtain pop cases where p: "p = (pop, cases)" by (cases p)
  let ?st = "st[k := initialRow pop cases]"
  have rows: "\<forall>r \<in> set ?st. length r = 10"
    using Cons.prems by (intro rows_list_update) simp_all
  have step: "assignAll st (p # ps) k = assignAll ?st ps (Suc k)"
    using Cons.prems by (simp add: p assignInitial_eq)
  from Cons.IH[OF rows, of "Suc k"] show ?case
    unfolding step by (auto simp: p nth_list_update nth_Cons' Suc_diff_le)
qed

lemma length_initialState [simp]: "length (initialState pops infected) = 9"
  using assignAll_rows[of "nd_zeros ageGroupIndex_length seirIndex_length"]
  by (simp add: initialState_def nd_zeros_def ageGroupIndex_length_def seirIndex_length_def)

lemma initialState_rows:
  "\<forall>r \<in> set (initialState pops infected). length r = 10"
  using assignAll_rows[of "nd_zeros ageGroupIndex_length seirIndex_length"]
  by (simp add: initialState_def nd_zeros_def ageGroupIndex_length_def seirIndex_length_def)

lemma initialState_nth:
  assumes "g < 9"
  shows "initialState pops infected ! g =
     (if g < length pops \<and> g < length infected then initialRow (pops ! g) (infected ! g)
      else replicate 10 0)"
  using assignAll_rows[of "nd_zeros ageGroupIndex_length seirIndex_length"
      "zip pops infected" 0] assms
  by (auto simp: initialState_def nd_zeros_def ageGroupIndex_length_def seirIndex_length_def)

section \<open>Facts about the loop\<close>

lemma simulateGroups_rows:
  "k + length rates \<le> length st \<Longrightarrow>
   length (simulateGroups env day N I T st rates k) = length st \<and>
   (\<forall>j < length st. simulateGroups env day N I T st rates k ! j =
      (if k \<le> j \<and> j < k + length rates
       then simulateOneDay (groupInputs env day N I T (st ! j) (rates ! (j - k)) j)
       else st ! j))"
proof (induction rates arbitrary: st k)
  case Nil
  then show ?case by auto
next
  case (Cons rate rates)
  let ?row = "simulateOneDay (groupInputs env day N I T (st ! k) rate k)"
  let ?st = "st[k := ?row]"
  have step: "simulateGroups env day N I T st (rate # rates) k =
      simulateGroups env day N I T ?st rates (Suc k)"
    by (simp add: Let_def getAllValues_def getRowView_def setRowValues_def)
  have le: "Suc k + length rates \<le> length ?st" using Cons.prems by simp
  from Cons.IH[OF le]
  have len: "length (simulateGroups env day N I T ?st rates (Suc k)) = length st"
    and nth: "\<And>j. j < length st \<Longrightarrow> simulateGroups env day N I T ?st rates (Suc k) ! j =
      (if Suc k \<le> j \<and> j < Suc k + length rates
       then simulateOneDay (groupInputs env day N I T (?st ! j) (rates ! (j - Suc k)) j)
       else ?st ! j)"
    by simp_all
  show ?case unfolding step
  proof (intro conjI allI impI)
    show "length (simulateGroups env day N I T ?st rates (Suc k)) = length st" by (rule len)
  next
    fix j assume j: "j < length st"
    consider "j < k" | "j = k" | "k < j" by linarith
    then show "simulateGroups env day N I T ?st rates (Suc k) ! j =
      (if k \<le> j \<and> j < k + length (rate # rates)
       then simulateOneDay (groupInputs env day N I T (st ! j) ((rate # rates) ! (j - k)) j)
       else st ! j)"
    proof cases
      case 1
      then show ?thesis using nth[OF j] by simp
    next
      case 2
      then show ?thesis using nth[OF j] j by simp
    next
      case 3
      then show ?thesis using nth[OF j] j by (simp add: nth_Cons' Suc_diff_le)
    qed
  qed
qed

lemma length_simulateDay: "length st = 9 \<Longrightarrow> length (simulateDay env day N st) = 9"
  using simulateGroups_rows[of 0 ageGroupFatalityRates st]
  by (simp add: simulateDay_def ageGroupFatalityRates_def)

lemma simulateDay_nth:
  "length st = 9 \<Longrightarrow> g < 9 \<Longrightarrow> simulateDay env day N st ! g =
     simulateOneDay (groupInputs env day N (totalInfectiousOf st)
       (totalSusceptibleIncarceratedOf st) (st ! g) (ageGroupFatalityRates ! g) g)"
  using simulateGroups_rows[of 0 ageGroupFatalityRates st]
  by (simp add: simulateDay_def ageGroupFatalityRates_def)

lemma length_stateAt: "length st0 = 9 \<Longrightarrow> length (stateAt env tp0 st0 d) = 9"
  by (induction d) (simp_all add: length_simulateDay)

lemma stateAt_row_length:
  "length st0 = 9 \<Longrightarrow> \<forall>r \<in> set st0. length r = 10 \<Longrightarrow> g < 9 \<Longrightarrow>
   length (stateAt env tp0 st0 d ! g) = 10"
  by (cases d) (simp_all add: simulateDay_nth length_stateAt length_simulateOneDay)

lemma dayLoop_unfold:
  "dayLoop env day st tpbd grid =
     (if day < envNumDays env
      then dayLoop env (Suc day) (simulateDay env day (tpbd ! (day - 1)) st)
             (js_set tpbd day (tpbd ! (day - 1) + envChanges env ! day))
             (updateProjectionDay grid day (simulateDay env day (tpbd ! (day - 1)) st))
      else (st, tpbd, grid))"
  by (subst dayLoop.simps) (simp add: Let_def)

lemma dayLoop_invariant:
  assumes "n = envNumDays env - day" "1 \<le> day" "day \<le> envNumDays env"
    and "st = stateAt env tp0 st0 (day - 1)"
    and "length st0 = 9"
    and "length tpbd = envNumDays env"
    and "\<forall>j < day. tpbd ! j = popAt (envChanges env) tp0 j"
    and "shape3 grid = (10, envNumDays env, 9)"
    and "\<forall>d < day. \<forall>a < 10. \<forall>k < 9. cells3 grid a d k = stateAt env tp0 st0 d ! k ! a"
    and "dayLoop env day st tpbd grid = (st', tpbd', grid')"
  shows "length tpbd' = envNumDays env
    \<and> (\<forall>j < envNumDays env. tpbd' ! j = popAt (envChanges env) tp0 j)
    \<and> (\<forall>d < envNumDays env. \<forall>a < 10. \<forall>k < 9.
          cells3 grid' a d k = stateAt env tp0 st0 d ! k ! a)"
  using assms
proof (induction n arbitrary: day st tpbd grid)
  case 0
  then have "day = envNumDays env" by simp
  with 0 show ?case by (simp add: dayLoop_unfold)
next
  case (Suc n)
  then have lt: "day < envNumDays env" by simp
  obtain dm where dm: "day = Suc dm" using Suc.prems(2) by (cases day) auto
  let ?tot = "tpbd ! (day - 1)"
  let ?st = "simulateDay env day ?tot st"
  let ?tp = "js_set tpbd day (?tot + envChanges env ! day)"
  let ?gr = "updateProjectionDay grid day ?st"
  have tot: "?tot = popAt (envChanges env) tp0 dm" using Suc.prems(7) dm by simp
  have st: "?st = stateAt env tp0 st0 day"
    using Suc.prems(4) dm tot by simp
  have tp: "?tp = tpbd[day := popAt (envChanges env) tp0 day]"
    using lt Suc.prems(6) tot dm by (simp add: js_set_def)
  have len9: "length ?st = 9" unfolding st using Suc.prems(5) by (rule length_stateAt)
  have run: "dayLoop env (Suc day) ?st ?tp ?gr = (st', tpbd', grid')"
    using Suc.prems(10) lt by (subst (asm) dayLoop_unfold) simp
  show ?case
  proof (rule Suc.IH[OF _ _ _ _ Suc.prems(5) _ _ _ _ run])
    show "n = envNumDays env - Suc day" using Suc.prems(1) by simp
    show "1 \<le> Suc day" by simp
    show "Suc day \<le> envNumDays env" using lt by simp
    show "?st = stateAt env tp0 st0 (Suc day - 1)" using st by simp
    show "length ?tp = envNumDays env" unfolding tp using Suc.prems(6) by simp
    show "\<forall>j<Suc day. ?tp ! j = popAt (envChanges env) tp0 j"
      unfolding tp using Suc.prems(6,7) lt by (auto simp: nth_list_update less_Suc_eq)
    show "shape3 ?gr = (10, envNumDays env, 9)" using Suc.prems(8) by simp
    show "\<forall>d<Suc day. \<forall>a<10. \<forall>k<9. cells3 ?gr a d k = stateAt env tp0 st0 d ! k ! a"
      using Suc.prems(8,9) lt st
      by (auto simp: cells3_updateProjectionDay less_Suc_eq)
  qed
qed

section \<open>The outputs of a run\<close>

lemma length_applyRelease [simp]: "length (applyRelease today changes r) = length changes"
  by (simp add: applyRelease_def Let_def split: option.splits)

lemma length_foldl_applyRelease [simp]:
  "length (foldl (applyRelease today) changes rs) = length changes"
  by (induction rs arbitrary: changes) simp_all

lemma length_resolveChanges [simp]: "length (resolveChanges today n rel) = n"
  by (simp add: resolveChanges_def)

lemma length_dayZeroState [simp]: "length (dayZeroState inputs) = 9"
  by (simp add: dayZeroState_def)

lemma run_invariant:
  assumes "0 < numDays inputs"
  shows "length (totalPopulationByDay (getAllBracketCurves today inputs)) = numDays inputs
    \<and> (\<forall>j < numDays inputs.
          totalPopulationByDay (getAllBracketCurves today inputs) ! j = runPop today inputs j)
    \<and> (\<forall>d < numDays inputs. \<forall>a < 10. \<forall>k < 9.
          cells3 (projectionGrid (getAllBracketCurves today inputs)) a d k
            = runState today inputs d ! k ! a)"
proof -
  let ?env = "dayEnv today inputs"
  let ?tp0 = "sum_list (adjustedPopulations inputs)"
  let ?st0 = "dayZeroState inputs"
  let ?tpbd0 = "js_set (replicate (numDays inputs) 0) 0 ?tp0"
  let ?grid0 = "updateProjectionDay
      (nd3_zeros (length seirIndexList) (numDays inputs) ageGroupIndex_length) 0 ?st0"
  have n: "envNumDays ?env = numDays inputs" by (simp add: dayEnv_def)
  obtain st' tpbd' grid' where run: "dayLoop ?env 1 ?st0 ?tpbd0 ?grid0 = (st', tpbd', grid')"
    by (cases "dayLoop ?env 1 ?st0 ?tpbd0 ?grid0") auto
  have out: "totalPopulationByDay (getAllBracketCurves today inputs) = tpbd'"
    "projectionGrid (getAllBracketCurves today inputs) = grid'"
    using run by (simp_all add: getAllBracketCurves_def Let_def)
  have tp: "?tpbd0 = (replicate (numDays inputs) 0)[0 := ?tp0]"
    using assms by (simp add: js_set_def)
  have sh: "shape3 ?grid0 = (10, numDays inputs, 9)"
    by (simp add: nd3_zeros_def seirIndexList_def ageGroupIndex_length_def)
  have inv: "length tpbd' = envNumDays ?env
    \<and> (\<forall>j < envNumDays ?env. tpbd' ! j = popAt (envChanges ?env) ?tp0 j)
    \<and> (\<forall>d < envNumDays ?env. \<forall>a < 10. \<forall>k < 9.
          cells3 grid' a d k = stateAt ?env ?tp0 ?st0 d ! k ! a)"
  proof (rule dayLoop_invariant[OF refl _ _ _ _ _ _ _ _ run])
    show "1 \<le> (1::nat)" by simp
    show "1 \<le> envNumDays ?env" using assms n by simp
    show "?st0 = stateAt ?env ?tp0 ?st0 (1 - 1)" by simp
    show "length ?st0 = 9" by simp
    show "length ?tpbd0 = envNumDays ?env" unfolding tp n by simp
    show "\<forall>j<1. ?tpbd0 ! j = popAt (envChanges ?env) ?tp0 j"
      unfolding tp using assms by simp
    show "shape3 ?grid0 = (10, envNumDays ?env, 9)" unfolding n by (rule sh)
    show "\<forall>d<1. \<forall>a<10. \<forall>k<9. cells3 ?grid0 a d k = stateAt ?env ?tp0 ?st0 d ! k ! a"
      using assms
      by (simp add: cells3_updateProjectionDay nd3_zeros_def seirIndexList_def
          ageGroupIndex_length_def)
  qed
  show ?thesis using inv unfolding out n runPop_def runState_def by simp
qed

lemma grid_runState:
  "d < numDays inputs \<Longrightarrow> a < 10 \<Longrightarrow> k < 9 \<Longrightarrow>
   nd3_get (projectionGrid (getAllBracketCurves today inputs)) a d k
     = runState today inputs d ! k ! a"
  using run_invariant[of inputs today] by (simp add: nd3_get_def)

lemma tpbd_runPop:
  "d < numDays inputs \<Longrightarrow>
   totalPopulationByDay (getAllBracketCurves today inputs) ! d = runPop today inputs d"
  using run_invariant[of inputs today] by simp

lemma changes_run:
  "expectedPopulationChanges (getAllBracketCurves today inputs)
     = resolveChanges today (numDays inputs) (plannedReleases inputs)"
  by (simp add: getAllBracketCurves_def Let_def dayEnv_def split: prod.splits)

lemma sum_list_row: "length (xs::real list) = n \<Longrightarrow> sum_list xs = (\<Sum>c<n. xs ! c)"
  by (auto simp: sum_list_sum_nth atLeast0LessThan)

lemma length_adjustPopulations [simp]:
  "length (adjustPopulations pops turnover) = length pops"
  by (simp add: adjustPopulations_def)

lemma adjustPopulations_nth:
  "g < length pops \<Longrightarrow> adjustPopulations pops turnover ! g =
     (if g = 8 then pops ! g else pops ! g + pops ! g * (turnover * populationAdjustmentRatio))"
  by (simp add: adjustPopulations_def)

lemma sum_list_initialRow: "sum_list (initialRow pop cases) = pop"
  by (simp add: initialRow_def initial_defs)

lemma dayZeroState_rows: "\<forall>r \<in> set (dayZeroState inputs). length r = 10"
  by (simp add: dayZeroState_def initialState_rows)

lemma runState_0 [simp]: "runState today inputs 0 = dayZeroState inputs"
  by (simp add: runState_def)

lemma dayZeroState_nth:
  "g < 9 \<Longrightarrow> g < length (ageGroupPopulations inputs) \<Longrightarrow>
   g < length (ageGroupInitiallyInfected inputs) \<Longrightarrow>
   dayZeroState inputs ! g =
     initialRow (adjustedPopulations inputs ! g) (ageGroupInitiallyInfected inputs ! g)"
  by (simp add: dayZeroState_def initialState_nth adjustedPopulations_def)

lemma dayZeroState_nth_zero:
  "g < 9 \<Longrightarrow> \<not> (g < length (ageGroupPopulations inputs) \<and>
     g < length (ageGroupInitiallyInfected inputs)) \<Longrightarrow>
   dayZeroState inputs ! g = replicate 10 0"
  by (auto simp: dayZeroState_def initialState_nth adjustedPopulations_def)


section \<open>Facts about the planned releases\<close>

lemma applyRelease_nth:
  "i < length changes \<Longrightarrow>
   applyRelease today changes r ! i = changes ! i - releasedOn today i r"
  by (auto simp: applyRelease_def releasedOn_def Let_def nth_list_update
      split: option.splits)

lemma foldl_applyRelease_nth:
  "i < length changes \<Longrightarrow>
   foldl (applyRelease today) changes rs ! i
     = changes ! i - (\<Sum>r\<leftarrow>rs. releasedOn today i r)"
  by (induction rs arbitrary: changes) (simp_all add: applyRelease_nth)

lemma resolveChanges_nth:
  "i < n \<Longrightarrow> resolveChanges today n (Some rs) ! i = - (\<Sum>r\<leftarrow>rs. releasedOn today i r)"
  by (simp add: resolveChanges_def foldl_applyRelease_nth)

lemma applyRelease_ignored:
  "date r = None \<or> count r = None \<or> count r = Some 0
     \<or> (\<exists>d. date r = Some d \<and> int (length changes) \<le> differenceInCalendarDays d today)
   \<Longrightarrow> applyRelease today changes r = changes"
  by (auto simp: applyRelease_def Let_def split: option.splits)

lemma resolveChanges_ignored:
  assumes "date r = None \<or> count r = None \<or> count r = Some 0
     \<or> (\<exists>d. date r = Some d \<and> int n \<le> differenceInCalendarDays d today)"
  shows "resolveChanges today n (Some (xs @ r # ys)) = resolveChanges today n (Some (xs @ ys))"
proof -
  have "applyRelease today (foldl (applyRelease today) (replicate n 0) xs) r
      = foldl (applyRelease today) (replicate n 0) xs"
    using assms by (intro applyRelease_ignored) simp
  then show ?thesis by (simp add: resolveChanges_def)
qed

section \<open>Facts about the dates\<close>

lemma tpbd_step:
  assumes "1 \<le> N" "N < numDays inputs"
  shows "totalPopulationByDay (getAllBracketCurves today inputs) ! N
    = totalPopulationByDay (getAllBracketCurves today inputs) ! (N - 1)
      + expectedPopulationChanges (getAllBracketCurves today inputs) ! N"
proof -
  obtain m where m: "N = Suc m" using assms(1) by (cases N) auto
  have "m < numDays inputs" using assms(2) m by simp
  then show ?thesis using assms(2)
    by (simp add: tpbd_runPop m runPop_def changes_run dayEnv_def)
qed

lemma sum_list_zero: "\<forall>x \<in> set xs. f x = (0::real) \<Longrightarrow> (\<Sum>x\<leftarrow>xs. f x) = 0"
  by (induction xs) simp_all

lemma applyRelease_shift:
  "applyRelease (today + k) changes (shiftRelease k r) = applyRelease today changes r"
  by (simp add: applyRelease_def shiftRelease_def differenceInCalendarDays_def Let_def
      split: option.splits)

lemma foldl_applyRelease_shift:
  "foldl (applyRelease (today + k)) changes (map (shiftRelease k) rs)
     = foldl (applyRelease today) changes rs"
  by (induction rs arbitrary: changes) (simp_all add: applyRelease_shift)

lemma resolveChanges_shift:
  "resolveChanges (today + k) n (map_option (map (shiftRelease k)) rel)
     = resolveChanges today n rel"
  by (cases rel) (simp_all add: resolveChanges_def foldl_applyRelease_shift)

lemma resolveChanges_None: "resolveChanges today n None = replicate n 0"
  by (simp add: resolveChanges_def)

lemma getAllBracketCurves_changes_only:
  assumes "resolveChanges today1 (numDays inputs1) (plannedReleases inputs1)
      = resolveChanges today2 (numDays inputs2) (plannedReleases inputs2)"
    and "inputs2 = inputs1\<lparr>plannedReleases := rel\<rparr>"
  shows "getAllBracketCurves today1 inputs1 = getAllBracketCurves today2 inputs2"
proof -
  have "dayEnv today1 inputs1 = dayEnv today2 inputs2"
    using assms by (simp add: dayEnv_def)
  moreover have "adjustedPopulations inputs1 = adjustedPopulations inputs2"
    "dayZeroState inputs1 = dayZeroState inputs2" "numDays inputs1 = numDays inputs2"
    using assms(2) by (simp_all add: adjustedPopulations_def dayZeroState_def)
  ultimately show ?thesis by (simp add: getAllBracketCurves_def)
qed

section \<open>Facts about the rows of a run\<close>

lemma length_runState [simp]: "length (runState today inputs d) = 9"
  by (simp add: runState_def length_stateAt)

lemma runState_row_length: "g < 9 \<Longrightarrow> length (runState today inputs d ! g) = 10"
  by (simp add: runState_def stateAt_row_length dayZeroState_rows)

lemma runState_Suc_row:
  "g < 9 \<Longrightarrow> runState today inputs (Suc m) ! g =
     simulateOneDay (groupInputs (dayEnv today inputs) (Suc m) (runPop today inputs m)
       (totalInfectiousOf (runState today inputs m))
       (totalSusceptibleIncarceratedOf (runState today inputs m))
       (runState today inputs m ! g) (ageGroupFatalityRates ! g) g)"
  by (simp add: runState_def runPop_def simulateDay_nth length_stateAt)

lemma simulateOneDay_susceptible:
  "simulateOneDay inputs ! 0 = max (susceptibleAdjusted inputs - cSusceptible inputs) 0"
  by (simp add: simulateOneDay_def Let_def)

lemma susceptibleAdjusted_no_adjustment:
  "populationAdjustment inputs = 0 \<Longrightarrow> susceptibleAdjusted inputs = priorSimulation inputs ! 0"
  by (simp add: susceptibleAdjusted_def Let_def)

lemma grid_row_sum:
  assumes "d < numDays inputs" "g < 9"
  shows "(\<Sum>c<10. nd3_get (projectionGrid (getAllBracketCurves today inputs)) c d g)
    = sum_list (runState today inputs d ! g)"
proof -
  have "(\<Sum>c<10. nd3_get (projectionGrid (getAllBracketCurves today inputs)) c d g)
      = (\<Sum>c<10. runState today inputs d ! g ! c)"
    using assms by (intro sum.cong) (simp_all add: grid_runState)
  then show ?thesis using assms(2) by (simp add: sum_list_row[OF runState_row_length])
qed

lemma nat_less_9_cases:
  "g < 9 \<Longrightarrow> g = 0 \<or> g = 1 \<or> g = 2 \<or> g = 3 \<or> g = 4 \<or> g = 5 \<or> g = 6 \<or> g = 7 \<or> g = (8::nat)"
  by arith

lemma list_9_eq:
  assumes "length xs = 9"
  shows "xs = [xs ! 0, xs ! 1, xs ! 2, xs ! 3, xs ! 4, xs ! 5, xs ! 6, xs ! 7, xs ! 8]"
proof (rule nth_equalityI)
  show "length xs = length [xs ! 0, xs ! 1, xs ! 2, xs ! 3, xs ! 4, xs ! 5, xs ! 6, xs ! 7, xs ! 8]"
    using assms by simp
next
  fix i assume "i < length xs"
  then have "i < 9" using assms by simp
  from nat_less_9_cases[OF this]
  show "xs ! i = [xs ! 0, xs ! 1, xs ! 2, xs ! 3, xs ! 4, xs ! 5, xs ! 6, xs ! 7, xs ! 8] ! i"
    by (elim disjE) simp_all
qed

lemma initialState_9:
  "initialState [p0, p1, p2, p3, p4, p5, p6, p7, p8] [i0, i1, i2, i3, i4, i5, i6, i7, i8]
     = [initialRow p0 i0, initialRow p1 i1, initialRow p2 i2, initialRow p3 i3,
        initialRow p4 i4, initialRow p5 i5, initialRow p6 i6, initialRow p7 i7,
        initialRow p8 i8]"
  by (subst list_9_eq[OF length_initialState]) (simp add: initialState_nth)

lemma totalInfectiousOf_9:
  "totalInfectiousOf [r0, r1, r2, r3, r4, r5, r6, r7, r8]
     = r0 ! 2 + r1 ! 2 + r2 ! 2 + r3 ! 2 + r4 ! 2 + r5 ! 2 + r6 ! 2 + r7 ! 2 + r8 ! 2"
  by (simp add: totalInfectiousOf_def getAllValues_def getColView_def)

lemma totalSusceptibleIncarceratedOf_9:
  "totalSusceptibleIncarceratedOf [r0, r1, r2, r3, r4, r5, r6, r7, r8]
     = r0 ! 0 + r1 ! 0 + r2 ! 0 + r3 ! 0 + r4 ! 0 + r5 ! 0 + r6 ! 0 + r7 ! 0"
  by (simp add: totalSusceptibleIncarceratedOf_def getAllValues_def getColView_def
      withoutStaff_def upt_rec[of 0] upt_rec[of 1] upt_rec[of 2] upt_rec[of 3] upt_rec[of 4]
      upt_rec[of 5] upt_rec[of 6] upt_rec[of 7] upt_rec[of 8] upt_rec[of 9])

lemma runState_pred_row:
  "0 < d \<Longrightarrow> g < 9 \<Longrightarrow> runState today inputs d ! g =
     simulateOneDay (groupInputs (dayEnv today inputs) d (runPop today inputs (d - 1))
       (totalInfectiousOf (runState today inputs (d - 1)))
       (totalSusceptibleIncarceratedOf (runState today inputs (d - 1)))
       (runState today inputs (d - 1) ! g) (ageGroupFatalityRates ! g) g)"
  using runState_Suc_row[of g today inputs "d - 1"] by simp

lemma runState_loopInputs:
  "0 < d \<Longrightarrow> g < 9 \<Longrightarrow>
   runState today inputs d ! g = simulateOneDay (loopInputs today inputs d g)"
  unfolding loopInputs_def by (rule runState_pred_row)

lemma simulateOneDay_exposed:
  "simulateOneDay inputs ! Suc 0 = priorSimulation inputs ! Suc 0
     + (cSusceptible inputs - rExposedToInfectious * priorSimulation inputs ! Suc 0)"
  by (simp add: simulateOneDay_def Let_def)

lemma simulateOneDay_infectious:
  "simulateOneDay inputs ! 2 = priorSimulation inputs ! 2
     + (rExposedToInfectious * priorSimulation inputs ! 1
        - (rInfectiousToQuarantined + rInfectiousToRecovered) * priorSimulation inputs ! 2)"
  by (simp add: simulateOneDay_def Let_def)

lemma totalInfectiousOf_runState:
  "totalInfectiousOf (runState today inputs d) =
     runState today inputs d ! 0 ! 2 + runState today inputs d ! Suc 0 ! 2
     + runState today inputs d ! 2 ! 2 + runState today inputs d ! 3 ! 2
     + runState today inputs d ! 4 ! 2 + runState today inputs d ! 5 ! 2
     + runState today inputs d ! 6 ! 2 + runState today inputs d ! 7 ! 2
     + runState today inputs d ! 8 ! 2"
  by (subst list_9_eq[OF length_runState]) (simp add: totalInfectiousOf_9)

lemma runPop_no_changes:
  "plannedReleases inputs = None \<Longrightarrow> d < numDays inputs \<Longrightarrow>
   runPop today inputs d = sum_list (adjustedPopulations inputs)"
  unfolding runPop_def
  by (induction d) (simp_all add: dayEnv_def resolveChanges_None)

lemma cSusceptible_group:
  "cSusceptible (groupInputs env day N I T row rate g) =
     (if N = 0 then 0
      else if g = 8 then envRateOfSpreadCells env / dInfectious * I
              * susceptibleAdjusted (groupInputs env day N I T row rate g) / N
      else (1 - envDormitoryPct env) * (envRateOfSpreadCells env / dInfectious) * I
              * susceptibleAdjusted (groupInputs env day N I T row rate g) / N
           + envDormitoryPct env * (envRateOfSpreadDorms env / dInfectious) * I
              * susceptibleAdjusted (groupInputs env day N I T row rate g) / N)"
  by (simp add: cSusceptible_def cSusceptibleComputed_def finiteOrZero_def js_div_def
      js_add_def Let_def groupInputs_def)

lemma susceptibleAdjusted_group:
  "envChanges env ! day = 0 \<Longrightarrow>
   susceptibleAdjusted (groupInputs env day N I T row rate g) = row ! 0"
  by (simp add: susceptibleAdjusted_def Let_def groupInputs_def)

lemma entry_susceptible:
  "0 < d \<Longrightarrow> g < 9 \<Longrightarrow> runState today inputs d ! g ! 0 =
     max (susceptibleAdjusted (groupInputs (dayEnv today inputs) d (runPop today inputs (d - 1))
       (totalInfectiousOf (runState today inputs (d - 1)))
       (totalSusceptibleIncarceratedOf (runState today inputs (d - 1)))
       (runState today inputs (d - 1) ! g) (ageGroupFatalityRates ! g) g)
       - cSusceptible (groupInputs (dayEnv today inputs) d (runPop today inputs (d - 1))
       (totalInfectiousOf (runState today inputs (d - 1)))
       (totalSusceptibleIncarceratedOf (runState today inputs (d - 1)))
       (runState today inputs (d - 1) ! g) (ageGroupFatalityRates ! g) g)) 0"
  by (simp add: runState_pred_row simulateOneDay_susceptible)

lemma entry_exposed:
  "0 < d \<Longrightarrow> g < 9 \<Longrightarrow> runState today inputs d ! g ! Suc 0 =
     runState today inputs (d - 1) ! g ! 1
     + (cSusceptible (groupInputs (dayEnv today inputs) d (runPop today inputs (d - 1))
       (totalInfectiousOf (runState today inputs (d - 1)))
       (totalSusceptibleIncarceratedOf (runState today inputs (d - 1)))
       (runState today inputs (d - 1) ! g) (ageGroupFatalityRates ! g) g)
        - rExposedToInfectious * runState today inputs (d - 1) ! g ! 1)"
  by (simp add: runState_pred_row simulateOneDay_exposed groupInputs_def)

lemma entry_infectious:
  "0 < d \<Longrightarrow> g < 9 \<Longrightarrow> runState today inputs d ! g ! 2 =
     runState today inputs (d - 1) ! g ! 2
     + (rExposedToInfectious * runState today inputs (d - 1) ! g ! 1
        - (rInfectiousToQuarantined + rInfectiousToRecovered)
          * runState today inputs (d - 1) ! g ! 2)"
  by (simp add: runState_pred_row simulateOneDay_infectious groupInputs_def)

lemmas sparse_eval =
  totalInfectiousOf_9 entry_susceptible entry_exposed entry_infectious totalInfectiousOf_runState
  cSusceptible_group susceptibleAdjusted_group runPop_no_changes
  adjustedRateOfSpreadCells_def adjustedRateOfSpreadDorms_def
  rateOfSpreadCellsAdjustment_def rateOfSpreadDormsAdjustment_def

lemma totalSusceptibleIncarceratedOf_runState:
  "totalSusceptibleIncarceratedOf (runState today inputs d) =
     runState today inputs d ! 0 ! 0 + runState today inputs d ! Suc 0 ! 0
     + runState today inputs d ! 2 ! 0 + runState today inputs d ! 3 ! 0
     + runState today inputs d ! 4 ! 0 + runState today inputs d ! 5 ! 0
     + runState today inputs d ! 6 ! 0 + runState today inputs d ! 7 ! 0"
  by (subst list_9_eq[OF length_runState]) (simp add: totalSusceptibleIncarceratedOf_9)

lemma grid_total_susceptible:
  assumes "d < numDays inputs"
  shows "(\<Sum>g<8. nd3_get (projectionGrid (getAllBracketCurves today inputs))
            (seirIndex_val susceptible) d g)
    = totalSusceptibleIncarceratedOf (runState today inputs d)"
proof -
  have "(\<Sum>g<8. nd3_get (projectionGrid (getAllBracketCurves today inputs)) 0 d g)
      = (\<Sum>g<8. runState today inputs d ! g ! 0)"
    using assms by (intro sum.cong) (simp_all add: grid_runState)
  also have "\<dots> = totalSusceptibleIncarceratedOf (runState today inputs d)"
    by (simp add: totalSusceptibleIncarceratedOf_runState eval_nat_numeral)
  finally show ?thesis by simp
qed

lemma grid_total_infectious:
  assumes "d < numDays inputs"
  shows "(\<Sum>g<9. nd3_get (projectionGrid (getAllBracketCurves today inputs))
            (seirIndex_val infectious) d g)
    = totalInfectiousOf (runState today inputs d)"
proof -
  have "(\<Sum>g<9. nd3_get (projectionGrid (getAllBracketCurves today inputs)) 2 d g)
      = (\<Sum>g<9. runState today inputs d ! g ! 2)"
    using assms by (intro sum.cong) (simp_all add: grid_runState)
  also have "\<dots> = (\<Sum>g<9. map (\<lambda>r. r ! 2) (runState today inputs d) ! g)"
    by (intro sum.cong) simp_all
  also have "\<dots> = totalInfectiousOf (runState today inputs d)"
    by (simp add: totalInfectiousOf_def getAllValues_def getColView_def
        sum_list_row[of "map (\<lambda>r. r ! 2) (runState today inputs d)" 9])
  finally show ?thesis by simp
qed

section \<open>The dormitory fraction and the staff\<close>

lemma dayZeroState_dorm [simp]:
  "dayZeroState (inputs\<lparr>facilityDormitoryPct := p\<rparr>) = dayZeroState inputs"
  by (simp add: dayZeroState_def adjustedPopulations_def)

lemma adjustedPopulations_dorm [simp]:
  "adjustedPopulations (inputs\<lparr>facilityDormitoryPct := p\<rparr>) = adjustedPopulations inputs"
  by (simp add: adjustedPopulations_def)

lemma dayEnv_dorm:
  "dayEnv today (inputs\<lparr>facilityDormitoryPct := p\<rparr>)
     = (dayEnv today inputs)\<lparr>envDormitoryPct := p\<rparr>"
  by (simp add: dayEnv_def)

lemma runPop_dorm [simp]:
  "runPop today (inputs\<lparr>facilityDormitoryPct := p\<rparr>) d = runPop today inputs d"
  by (simp add: runPop_def dayEnv_dorm)

lemma simulateOneDay_staff:
  assumes "envRateOfSpreadCells env = envRateOfSpreadCells env'"
  shows "simulateOneDay (groupInputs env day N I T row rate (ageGroupIndex_val staff))
    = simulateOneDay (groupInputs env' day' N I T' row rate (ageGroupIndex_val staff))"
  using assms
  by (simp add: simulateOneDay_def cSusceptible_def cSusceptibleComputed_def
      susceptibleAdjusted_def groupInputs_def Let_def)

lemma staff_row_step:
  assumes "runState today inputs m ! 8 = runState today (inputs\<lparr>facilityDormitoryPct := p\<rparr>) m ! 8"
    and "totalInfectiousOf (runState today inputs m)
      = totalInfectiousOf (runState today (inputs\<lparr>facilityDormitoryPct := p\<rparr>) m)"
  shows "runState today inputs (Suc m) ! 8
    = runState today (inputs\<lparr>facilityDormitoryPct := p\<rparr>) (Suc m) ! 8"
proof -
  have c: "envRateOfSpreadCells (dayEnv today inputs)
      = envRateOfSpreadCells (dayEnv today (inputs\<lparr>facilityDormitoryPct := p\<rparr>))"
    by (simp add: dayEnv_dorm)
  show ?thesis
    using simulateOneDay_staff[OF c] assms by (simp add: runState_Suc_row)
qed

lemma total_infectious_step:
  assumes "\<forall>g<9. runState today inputs m ! g ! 1 = runState today inputs' m ! g ! 1"
    and "\<forall>g<9. runState today inputs m ! g ! 2 = runState today inputs' m ! g ! 2"
  shows "totalInfectiousOf (runState today inputs (Suc m))
    = totalInfectiousOf (runState today inputs' (Suc m))"
  using assms by (simp add: totalInfectiousOf_runState entry_infectious)

lemma staff_rows_upto:
  assumes "\<forall>d' < d. totalInfectiousOf (runState today inputs d')
      = totalInfectiousOf (runState today (inputs\<lparr>facilityDormitoryPct := p\<rparr>) d')"
  shows "runState today inputs d ! 8
    = runState today (inputs\<lparr>facilityDormitoryPct := p\<rparr>) d ! 8"
  using assms
proof (induction d)
  case 0
  show ?case by simp
next
  case (Suc m)
  then show ?case by (intro staff_row_step) simp_all
qed

section \<open>Signs\<close>

lemma cSusceptible_nonneg:
  assumes "0 \<le> rateOfSpreadCells inp" "0 \<le> rateOfSpreadDorms inp"
    and "0 \<le> facilityDormitoryPct inp" "facilityDormitoryPct inp \<le> 1"
    and "0 \<le> totalInfectious inp" "0 \<le> totalPopulation inp"
    and "0 \<le> susceptibleAdjusted inp"
  shows "0 \<le> cSusceptible inp"
proof (cases "totalPopulation inp = 0")
  case True
  then show ?thesis
    by (simp add: cSusceptible_def cSusceptibleComputed_def finiteOrZero_def js_div_def
        js_add_def Let_def)
next
  case False
  define bc where "bc = rateOfSpreadCells inp / dInfectious"
  define bd where "bd = rateOfSpreadDorms inp / dInfectious"
  have d: "0 \<le> 1 - facilityDormitoryPct inp" using assms(4) by simp
  have b: "0 \<le> bc" "0 \<le> bd"
    using assms(1,2) by (simp_all add: bc_def bd_def dInfectious_def)
  have 1: "0 \<le> bc * totalInfectious inp * susceptibleAdjusted inp / totalPopulation inp"
    using b assms(5,6,7) by (intro divide_nonneg_nonneg mult_nonneg_nonneg) simp_all
  have 2: "0 \<le> (1 - facilityDormitoryPct inp) * bc
      * totalInfectious inp * susceptibleAdjusted inp / totalPopulation inp"
    using b d assms(5,6,7) by (intro divide_nonneg_nonneg mult_nonneg_nonneg) simp_all
  have 3: "0 \<le> facilityDormitoryPct inp * bd
      * totalInfectious inp * susceptibleAdjusted inp / totalPopulation inp"
    using b assms(3,5,6,7) by (intro divide_nonneg_nonneg mult_nonneg_nonneg) simp_all
  have "cSusceptible inp =
      (if simulateStaff inp
       then bc * totalInfectious inp * susceptibleAdjusted inp / totalPopulation inp
       else (1 - facilityDormitoryPct inp) * bc
              * totalInfectious inp * susceptibleAdjusted inp / totalPopulation inp
            + facilityDormitoryPct inp * bd
              * totalInfectious inp * susceptibleAdjusted inp / totalPopulation inp)"
    using False
    by (simp add: cSusceptible_def cSusceptibleComputed_def finiteOrZero_def js_div_def
        js_add_def Let_def bc_def bd_def)
  then show ?thesis using 1 add_nonneg_nonneg[OF 2 3] by simp
qed

lemma simulateOneDay_nonneg:
  assumes len: "length (priorSimulation inp) = 10"
    and nn: "\<forall>x \<in> set (priorSimulation inp). 0 \<le> x"
    and f: "0 \<le> pFatalityRate inp" "pFatalityRate inp \<le> 0.7"
    and c: "0 \<le> cSusceptible inp"
  shows "\<forall>x \<in> set (simulateOneDay inp). 0 \<le> x"
proof -
  obtain a0 a1 a2 a3 a4 a5 a6 a7 a8 a9
    where p: "priorSimulation inp = [a0, a1, a2, a3, a4, a5, a6, a7, a8, a9]"
    using len by (auto simp: length_Suc_conv eval_nat_numeral)
  have a: "0 \<le> a0" "0 \<le> a1" "0 \<le> a2" "0 \<le> a3" "0 \<le> a4" "0 \<le> a5" "0 \<le> a6"
    "0 \<le> a7" "0 \<le> a8" "0 \<le> a9"
    using nn by (simp_all add: p)
  define fh where "fh = pFatalityRate inp * a4"
  have fh: "0 \<le> fh" "fh \<le> 0.7 * a4"
    unfolding fh_def using f a(5) mult_right_mono[OF f(2) a(5)] by simp_all
  have e1: "0 \<le> a1 + (cSusceptible inp - rExposedToInfectious * a1)"
    using a c by (simp add: rate_defs)
  have e2: "0 \<le> a2 + (rExposedToInfectious * a1
      - (rInfectiousToQuarantined + rInfectiousToRecovered) * a2)"
    using a by (simp add: rate_defs)
  have e3: "0 \<le> a3 + (rInfectiousToQuarantined * a2
      - (rQuarantinedToHospitalized + rQuarantinedToRecovered) * a3)"
    using a by (simp add: rate_defs)
  have e4: "0 \<le> a4 + (rQuarantinedToHospitalized * a3
      - (rHospitalizedToIcu + (1 - pFatalityRate inp - pIcu) * (1 / dHospitalized)) * a4
      - pFatalityRate inp * (1 / dHospitalizedFatality) * a4)"
    using a fh unfolding fh_def by (simp add: rate_defs algebra_simps)
  have e5: "0 \<le> a5 + (rHospitalizedToIcu * a4 - rIcuToFatality * a5
      - rIcuToHospitalRecovery * a5)"
    using a by (simp add: rate_defs)
  have e6: "0 \<le> a6 + (rIcuToHospitalRecovery * a5 - rHospitalRecoveryToRecovered * a6)"
    using a by (simp add: rate_defs)
  have e7: "0 \<le> a7 + (rIcuToFatality * a5
      + pFatalityRate inp * (1 / dHospitalizedFatality) * a4)"
    using a fh unfolding fh_def by (simp add: rate_defs algebra_simps)
  have e8: "0 \<le> a8 + (rInfectiousToRecovered * a2 + rQuarantinedToRecovered * a3)"
    using a by (simp add: rate_defs)
  have e9: "0 \<le> a9 + ((1 - pFatalityRate inp - pIcu) * (1 / dHospitalized) * a4
      + rHospitalRecoveryToRecovered * a6)"
    using a fh unfolding fh_def by (simp add: rate_defs algebra_simps)
  show ?thesis
    using e1 e2 e3 e4 e5 e6 e7 e8 e9 by (simp add: simulateOneDay_def Let_def p)
qed

lemma fatality_rate_bounds:
  assumes "g < 9"
  shows "0 \<le> ageGroupFatalityRates ! g \<and> ageGroupFatalityRates ! g \<le> 0.7"
  using nat_less_9_cases[OF assms]
  by (elim disjE) (simp_all add: ageGroupFatalityRates_def)

lemma adjusted_rates_nonneg:
  assumes "0 \<le> occupancy"
  shows "0 \<le> adjustedRateOfSpreadCells factor occupancy"
    and "0 \<le> adjustedRateOfSpreadDorms factor occupancy"
  using assms
  by (cases factor; simp add: adjustedRateOfSpreadCells_def adjustedRateOfSpreadDorms_def
      rateOfSpreadCellsAdjustment_def rateOfSpreadDormsAdjustment_def algebra_simps)+

lemma susceptibleAdjusted_nonneg:
  assumes "0 \<le> row ! 0" "0 \<le> T"
    and "g = 8 \<or> T = 0 \<or> 0 \<le> T + envChanges env ! day"
  shows "0 \<le> susceptibleAdjusted (groupInputs env day N I T row rate g)"
proof (cases "g = 8 \<or> T = 0")
  case True
  then show ?thesis using assms(1)
    by (auto simp: susceptibleAdjusted_def groupInputs_def Let_def)
next
  case False
  then have T: "0 < T" and adj: "0 \<le> T + envChanges env ! day" using assms(2,3) by auto
  have "row ! 0 + envChanges env ! day * (row ! 0 / T)
      = row ! 0 * ((T + envChanges env ! day) / T)"
    using T by (simp add: field_simps)
  moreover have "0 \<le> row ! 0 * ((T + envChanges env ! day) / T)"
    using assms(1) T adj by (intro mult_nonneg_nonneg divide_nonneg_nonneg) simp_all
  ultimately show ?thesis using False
    by (simp add: susceptibleAdjusted_def groupInputs_def Let_def)
qed

lemma initialRow_nonneg:
  assumes "0 \<le> cases" "cases + cases * rExposedToInfectious \<le> pop"
  shows "\<forall>x \<in> set (initialRow pop cases). 0 \<le> x"
  using assms by (simp add: initialRow_def initial_defs rate_defs)

lemma dayZeroState_nonneg:
  assumes "\<forall>g<9. g < length (ageGroupPopulations inputs)
        \<and> g < length (ageGroupInitiallyInfected inputs) \<longrightarrow>
      0 \<le> ageGroupInitiallyInfected inputs ! g
      \<and> ageGroupInitiallyInfected inputs ! g
          + ageGroupInitiallyInfected inputs ! g * rExposedToInfectious
        \<le> adjustedPopulations inputs ! g"
    and "g < 9"
  shows "\<forall>x \<in> set (dayZeroState inputs ! g). 0 \<le> x"
proof (cases "g < length (ageGroupPopulations inputs)
    \<and> g < length (ageGroupInitiallyInfected inputs)")
  case True
  with assms have "0 \<le> ageGroupInitiallyInfected inputs ! g"
    "ageGroupInitiallyInfected inputs ! g
       + ageGroupInitiallyInfected inputs ! g * rExposedToInfectious
     \<le> adjustedPopulations inputs ! g"
    by blast+
  then have "\<forall>x \<in> set (initialRow (adjustedPopulations inputs ! g)
      (ageGroupInitiallyInfected inputs ! g)). 0 \<le> x"
    by (rule initialRow_nonneg)
  then show ?thesis using True assms(2) by (simp only: dayZeroState_nth)
next
  case False
  then show ?thesis using assms(2) by (simp add: dayZeroState_nth_zero)
qed

lemma sum9_nonneg:
  "\<forall>g<9. 0 \<le> f g \<Longrightarrow>
   0 \<le> f 0 + f (Suc 0) + f 2 + f 3 + f 4 + f 5 + f 6 + f 7 + (f 8 :: real)"
  by (intro add_nonneg_nonneg) simp_all

lemma sum8_nonneg:
  "\<forall>g<9. 0 \<le> f g \<Longrightarrow>
   0 \<le> f 0 + f (Suc 0) + f 2 + f 3 + f 4 + f 5 + f 6 + (f 7 :: real)"
  by (intro add_nonneg_nonneg) simp_all

lemma row_entry_nonneg:
  "g < 9 \<Longrightarrow> c < 10 \<Longrightarrow> \<forall>x \<in> set (runState today inputs d ! g). 0 \<le> x \<Longrightarrow>
   0 \<le> runState today inputs d ! g ! c"
  using runState_row_length[of g today inputs d] by simp

lemma runState_nonneg:
  assumes init: "\<forall>g<9. g < length (ageGroupPopulations inputs)
        \<and> g < length (ageGroupInitiallyInfected inputs) \<longrightarrow>
      0 \<le> ageGroupInitiallyInfected inputs ! g
      \<and> ageGroupInitiallyInfected inputs ! g
          + ageGroupInitiallyInfected inputs ! g * rExposedToInfectious
        \<le> adjustedPopulations inputs ! g"
    and dorm: "0 \<le> facilityDormitoryPct inputs" "facilityDormitoryPct inputs \<le> 1"
    and occ: "0 \<le> facilityOccupancyPct inputs"
    and days: "\<forall>m. Suc m \<le> d \<longrightarrow>
      0 \<le> runPop today inputs m
      \<and> (totalSusceptibleIncarceratedOf (runState today inputs m) = 0
         \<or> 0 \<le> totalSusceptibleIncarceratedOf (runState today inputs m)
              + envChanges (dayEnv today inputs) ! Suc m)"
  shows "\<forall>g<9. \<forall>x \<in> set (runState today inputs d ! g). 0 \<le> x"
  using days
proof (induction d)
  case 0
  show ?case using dayZeroState_nonneg[OF init] by simp
next
  case (Suc m)
  have IH: "\<forall>g<9. \<forall>x \<in> set (runState today inputs m ! g). 0 \<le> x"
    using Suc by simp
  have entries: "0 \<le> runState today inputs m ! g ! c" if "g < 9" "c < 10" for g c
    using row_entry_nonneg[OF that] IH that by simp
  let ?I = "totalInfectiousOf (runState today inputs m)"
  let ?T = "totalSusceptibleIncarceratedOf (runState today inputs m)"
  let ?env = "dayEnv today inputs"
  have I: "0 \<le> ?I"
    unfolding totalInfectiousOf_runState
    by (rule sum9_nonneg[of "\<lambda>g. runState today inputs m ! g ! 2"]) (simp add: entries)
  have T: "0 \<le> ?T"
    unfolding totalSusceptibleIncarceratedOf_runState
    by (rule sum8_nonneg[of "\<lambda>g. runState today inputs m ! g ! 0"]) (simp add: entries)
  have N: "0 \<le> runPop today inputs m"
    and adj: "?T = 0 \<or> 0 \<le> ?T + envChanges ?env ! Suc m"
    using Suc.prems by simp_all
  show ?case
  proof (intro allI impI)
    fix g :: nat assume g: "g < 9"
    let ?inp = "groupInputs ?env (Suc m) (runPop today inputs m) ?I ?T
        (runState today inputs m ! g) (ageGroupFatalityRates ! g) g"
    have row: "runState today inputs (Suc m) ! g = simulateOneDay ?inp"
      using g by (rule runState_Suc_row)
    have sa: "0 \<le> susceptibleAdjusted ?inp"
      using entries[OF g, of 0] T adj by (intro susceptibleAdjusted_nonneg) auto
    have c: "0 \<le> cSusceptible ?inp"
      using sa I N dorm adjusted_rates_nonneg[OF occ]
      by (intro cSusceptible_nonneg) (simp_all add: groupInputs_def dayEnv_def)
    show "\<forall>x \<in> set (runState today inputs (Suc m) ! g). 0 \<le> x"
      unfolding row
      using g IH fatality_rate_bounds[OF g] c runState_row_length[OF g]
      by (intro simulateOneDay_nonneg) (simp_all add: groupInputs_def)
  qed
qed

section \<open>The sample facility\<close>

lemma dayZeroState_sample:
  "dayZeroState sampleInputs =
     [[850, 50, 57, 25.3, 4.1, 1.2, 0.4, 0.1, 7.4, 4.5],
      [0, 0, 0, 0, 0, 0, 0, 0, 0, 0], [0, 0, 0, 0, 0, 0, 0, 0, 0, 0],
      [0, 0, 0, 0, 0, 0, 0, 0, 0, 0], [0, 0, 0, 0, 0, 0, 0, 0, 0, 0],
      [0, 0, 0, 0, 0, 0, 0, 0, 0, 0], [0, 0, 0, 0, 0, 0, 0, 0, 0, 0],
      [0, 0, 0, 0, 0, 0, 0, 0, 0, 0],
      [100, 0, 0, 0, 0, 0, 0, 0, 0, 0]]"
  by (simp add: dayZeroState_def adjustedPopulations_def adjustPopulations_def sampleInputs_def
      initialState_9 initialRow_def rate_defs initial_defs upt_rec[of 0] upt_rec[of 1]
      upt_rec[of 2] upt_rec[of 3] upt_rec[of 4]
      upt_rec[of 5] upt_rec[of 6] upt_rec[of 7] upt_rec[of 8] upt_rec[of 9])

lemma sample_fields:
  "numDays sampleInputs = 5" "facilityDormitoryPct sampleInputs = 1"
  "facilityOccupancyPct sampleInputs = 1" "rateOfSpreadFactor sampleInputs = high"
  "plannedReleases sampleInputs = None"
  by (simp_all add: sampleInputs_def)

lemma sum_pops_sample: "sum_list (adjustedPopulations sampleInputs) = 1100"
  by (simp add: adjustedPopulations_def adjustPopulations_def sampleInputs_def)

lemma env_sample:
  "envChanges (dayEnv 0 sampleInputs) = [0, 0, 0, 0, 0]"
  "envDormitoryPct (dayEnv 0 sampleInputs) = 1"
  "envRateOfSpreadCells (dayEnv 0 sampleInputs) = 3.7"
  "envRateOfSpreadDorms (dayEnv 0 sampleInputs) = 7"
  by (simp_all add: dayEnv_def sample_fields resolveChanges_None eval_nat_numeral
      adjustedRateOfSpreadCells_def adjustedRateOfSpreadDorms_def)

lemma dayZeroState_all_infected:
  "dayZeroState (sampleInputs\<lparr>ageGroupInitiallyInfected := [1000, 0, 0, 0, 0, 0, 0, 0, 0]\<rparr>) =
     [[- 500, 500, 570, 253, 41, 12, 4, 1, 74, 45],
      [0, 0, 0, 0, 0, 0, 0, 0, 0, 0], [0, 0, 0, 0, 0, 0, 0, 0, 0, 0],
      [0, 0, 0, 0, 0, 0, 0, 0, 0, 0], [0, 0, 0, 0, 0, 0, 0, 0, 0, 0],
      [0, 0, 0, 0, 0, 0, 0, 0, 0, 0], [0, 0, 0, 0, 0, 0, 0, 0, 0, 0],
      [0, 0, 0, 0, 0, 0, 0, 0, 0, 0],
      [100, 0, 0, 0, 0, 0, 0, 0, 0, 0]]"
  by (simp add: dayZeroState_def adjustedPopulations_def adjustPopulations_def sampleInputs_def
      initialState_9 initialRow_def rate_defs initial_defs upt_rec[of 0] upt_rec[of 1]
      upt_rec[of 2] upt_rec[of 3] upt_rec[of 4]
      upt_rec[of 5] upt_rec[of 6] upt_rec[of 7] upt_rec[of 8] upt_rec[of 9])

lemma dayEnv_infected [simp]:
  "dayEnv today (inputs\<lparr>ageGroupInitiallyInfected := x\<rparr>) = dayEnv today inputs"
  by (simp add: dayEnv_def)

lemma adjustedPopulations_infected [simp]:
  "adjustedPopulations (inputs\<lparr>ageGroupInitiallyInfected := x\<rparr>) = adjustedPopulations inputs"
  by (simp add: adjustedPopulations_def)

lemma env_sample_cells_only:
  "envChanges (dayEnv 0 (sampleInputs\<lparr>facilityDormitoryPct := 0\<rparr>)) = [0, 0, 0, 0, 0]"
  "envDormitoryPct (dayEnv 0 (sampleInputs\<lparr>facilityDormitoryPct := 0\<rparr>)) = 0"
  "envRateOfSpreadCells (dayEnv 0 (sampleInputs\<lparr>facilityDormitoryPct := 0\<rparr>)) = 3.7"
  "envRateOfSpreadDorms (dayEnv 0 (sampleInputs\<lparr>facilityDormitoryPct := 0\<rparr>)) = 7"
  by (simp_all add: dayEnv_dorm env_sample)

lemma dayZeroState_sampleRelease: "dayZeroState sampleRelease = dayZeroState sampleInputs"
  by (simp add: sampleRelease_def dayZeroState_def adjustedPopulations_def)

section \<open>The claims\<close>

text \<open>
  C1. On a simulated day whose population adjustment is zero, write \<open>s\<close> for a group's
  susceptible value of the prior day and \<open>x\<close> for the group's new exposures of the day,
  the value of \<open>cSusceptible\<close> in the loop's call of \<open>simulateOneDay\<close>, which the grid shows
  as the inflow of the exposed compartment. The group's new susceptible value is \<open>s - x\<close>
  floored at zero, and the sum of its ten compartment values is the sum of the prior day
  plus what the floor added, \<open>max (x - s) 0\<close>. So the sum is never below the sum of the prior
  day; it equals the sum of the prior day whenever the new susceptible value is positive;
  and when the floor lifts a negative value \<open>s - x\<close> to zero, the sum grows by exactly the
  amount lifted, \<open>x - s\<close>.
\<close>

theorem mass_moved_between_compartments:
  fixes today inputs d g
  defines "grid \<equiv> projectionGrid (getAllBracketCurves today inputs)"
  defines "s \<equiv> nd3_get grid (seirIndex_val susceptible) (d - 1) g"
  defines "x \<equiv> nd3_get grid (seirIndex_val exposed) d g
      - nd3_get grid (seirIndex_val exposed) (d - 1) g
      + rExposedToInfectious * nd3_get grid (seirIndex_val exposed) (d - 1) g"
  assumes "1 \<le> d" "d < numDays inputs" "g < 9"
    and "expectedPopulationChanges (getAllBracketCurves today inputs) ! d = 0"
  shows "x = cSusceptible (loopInputs today inputs d g)
    \<and> nd3_get grid (seirIndex_val susceptible) d g = max (s - x) 0
    \<and> (\<Sum>c<10. nd3_get grid c d g) = (\<Sum>c<10. nd3_get grid c (d - 1) g) + max (x - s) 0
    \<and> (\<Sum>c<10. nd3_get grid c (d - 1) g) \<le> (\<Sum>c<10. nd3_get grid c d g)
    \<and> (0 < nd3_get grid (seirIndex_val susceptible) d g \<longrightarrow>
         (\<Sum>c<10. nd3_get grid c d g) = (\<Sum>c<10. nd3_get grid c (d - 1) g))
    \<and> (s < x \<longrightarrow>
         nd3_get grid (seirIndex_val susceptible) d g = 0
         \<and> (\<Sum>c<10. nd3_get grid c d g) = (\<Sum>c<10. nd3_get grid c (d - 1) g) + (x - s))"
proof -
  obtain m where m: "d = Suc m" using assms(4) by (cases d) auto
  have mlt: "m < numDays inputs" using assms(5) m by simp
  have dpos: "0 < d" using m by simp
  let ?prior = "runState today inputs m ! g"
  let ?inp = "loopInputs today inputs d g"
  have new: "runState today inputs d ! g = simulateOneDay ?inp"
    using dpos assms(6) by (rule runState_loopInputs)
  have prior: "priorSimulation ?inp = ?prior"
    by (simp add: loopInputs_def groupInputs_def m)
  have adj: "populationAdjustment ?inp = 0"
    using assms(7) by (simp add: loopInputs_def groupInputs_def changes_run dayEnv_def)
  have sa: "susceptibleAdjusted ?inp = ?prior ! 0"
    using susceptibleAdjusted_no_adjustment[OF adj] prior by simp
  have len: "length (priorSimulation ?inp) = 10"
    unfolding prior using assms(6) by (rule runState_row_length)
  have s: "s = ?prior ! 0"
    unfolding s_def grid_def using mlt assms(6) by (simp add: grid_runState m)
  have e0: "nd3_get grid (seirIndex_val exposed) (d - 1) g = ?prior ! Suc 0"
    unfolding grid_def using mlt assms(6) by (simp add: grid_runState m)
  have e1: "nd3_get grid (seirIndex_val exposed) d g
      = ?prior ! Suc 0 + (cSusceptible ?inp - rExposedToInfectious * ?prior ! Suc 0)"
    unfolding grid_def using assms(5,6)
    by (simp add: grid_runState new simulateOneDay_exposed prior)
  have x: "x = cSusceptible ?inp"
    unfolding x_def e0 e1 by simp
  have sums: "sum_list (simulateOneDay ?inp)
      = sum_list ?prior - s + x + max (s - x) 0"
    using sum_simulateOneDay[OF len] unfolding prior sa s x .
  have sus: "nd3_get grid (seirIndex_val susceptible) d g = max (s - x) 0"
    unfolding grid_def s x using assms(5,6)
    by (simp add: grid_runState new simulateOneDay_susceptible sa)
  have a: "(\<Sum>c<10. nd3_get grid c d g) = sum_list (simulateOneDay ?inp)"
    unfolding grid_def using grid_row_sum[OF assms(5,6)] new by simp
  have b: "(\<Sum>c<10. nd3_get grid c (d - 1) g) = sum_list ?prior"
    unfolding grid_def using grid_row_sum[OF mlt assms(6)] m by simp
  show ?thesis
    unfolding a b sums sus using x by (auto simp: max_def)
qed

theorem mass_moved_between_compartments_witness:
  "(1::nat) \<le> 1 \<and> 1 < numDays sampleInputs \<and> (0::nat) < 9
   \<and> expectedPopulationChanges (getAllBracketCurves 0 sampleInputs) ! 1 = 0
   \<and> 0 < nd3_get (projectionGrid (getAllBracketCurves 0 sampleInputs))
           (seirIndex_val susceptible) 1 0
   \<and> (\<Sum>c<10. nd3_get (projectionGrid (getAllBracketCurves 0 sampleInputs)) c 1 0)
     = (\<Sum>c<10. nd3_get (projectionGrid (getAllBracketCurves 0 sampleInputs)) c 0 0)
   \<and> 1 < numDays (sampleInputs\<lparr>ageGroupInitiallyInfected := [1000, 0, 0, 0, 0, 0, 0, 0, 0]\<rparr>)
   \<and> expectedPopulationChanges (getAllBracketCurves 0
        (sampleInputs\<lparr>ageGroupInitiallyInfected := [1000, 0, 0, 0, 0, 0, 0, 0, 0]\<rparr>)) ! 1 = 0
   \<and> nd3_get (projectionGrid (getAllBracketCurves 0
        (sampleInputs\<lparr>ageGroupInitiallyInfected := [1000, 0, 0, 0, 0, 0, 0, 0, 0]\<rparr>)))
        (seirIndex_val susceptible) 0 0 = - 500
   \<and> cSusceptible (loopInputs 0
        (sampleInputs\<lparr>ageGroupInitiallyInfected := [1000, 0, 0, 0, 0, 0, 0, 0, 0]\<rparr>) 1 0)
     = - 66500 / 187
   \<and> nd3_get (projectionGrid (getAllBracketCurves 0
        (sampleInputs\<lparr>ageGroupInitiallyInfected := [1000, 0, 0, 0, 0, 0, 0, 0, 0]\<rparr>)))
        (seirIndex_val susceptible) 1 0 = 0
   \<and> (\<Sum>c<10. nd3_get (projectionGrid (getAllBracketCurves 0
        (sampleInputs\<lparr>ageGroupInitiallyInfected := [1000, 0, 0, 0, 0, 0, 0, 0, 0]\<rparr>))) c 1 0)
     = (\<Sum>c<10. nd3_get (projectionGrid (getAllBracketCurves 0
        (sampleInputs\<lparr>ageGroupInitiallyInfected := [1000, 0, 0, 0, 0, 0, 0, 0, 0]\<rparr>))) c 0 0)
       + 27000 / 187"
proof -
  let ?A = "sampleInputs\<lparr>ageGroupInitiallyInfected := [1000, 0, 0, 0, 0, 0, 0, 0, 0]\<rparr>"
  let ?gA = "projectionGrid (getAllBracketCurves 0 ?A)"
  let ?S = "nd3_get ?gA (seirIndex_val susceptible) (1 - 1) 0"
  let ?X = "nd3_get ?gA (seirIndex_val exposed) 1 0
      - nd3_get ?gA (seirIndex_val exposed) (1 - 1) 0
      + rExposedToInfectious * nd3_get ?gA (seirIndex_val exposed) (1 - 1) 0"
  have h: "(1::nat) \<le> 1" "1 < numDays sampleInputs" "(0::nat) < 9"
    "expectedPopulationChanges (getAllBracketCurves 0 sampleInputs) ! 1 = 0"
    by (simp_all add: sample_fields changes_run resolveChanges_None)
  have hA: "(1::nat) \<le> 1" "1 < numDays ?A" "(0::nat) < 9"
    "expectedPopulationChanges (getAllBracketCurves 0 ?A) ! 1 = 0"
    by (simp_all add: sample_fields changes_run resolveChanges_None)
  have "runState 0 sampleInputs 1 ! 0 ! 0 = 8685 / 11"
    by (simp add: sparse_eval env_sample sample_fields sum_pops_sample dayZeroState_sample
        rate_defs)
  then have p: "0 < nd3_get (projectionGrid (getAllBracketCurves 0 sampleInputs))
           (seirIndex_val susceptible) 1 0"
    by (simp add: grid_runState sample_fields)
  have eq: "(\<Sum>c<10. nd3_get (projectionGrid (getAllBracketCurves 0 sampleInputs)) c 1 0)
     = (\<Sum>c<10. nd3_get (projectionGrid (getAllBracketCurves 0 sampleInputs)) c 0 0)"
    using mass_moved_between_compartments[OF h] p by simp
  note T = mass_moved_between_compartments[OF hA]
  have c: "cSusceptible (loopInputs 0 ?A 1 0) = - 66500 / 187"
    unfolding loopInputs_def
    by (simp add: cSusceptible_group susceptibleAdjusted_group env_sample
        dayZeroState_all_infected
        totalInfectiousOf_9 runPop_no_changes sample_fields sum_pops_sample rate_defs)
  have X: "?X = - 66500 / 187"
    using conjunct1[OF T] c by (rule trans)
  have S: "?S = - 500"
    by (simp add: grid_runState sample_fields dayZeroState_all_infected)
  have lt: "?S < ?X" unfolding S X by simp
  from T lt have
    "nd3_get ?gA (seirIndex_val susceptible) 1 0 = 0
     \<and> (\<Sum>c<10. nd3_get ?gA c 1 0) = (\<Sum>c<10. nd3_get ?gA c (1 - 1) 0) + (?X - ?S)"
    by blast
  then have r: "nd3_get ?gA (seirIndex_val susceptible) 1 0 = 0"
    "(\<Sum>c<10. nd3_get ?gA c 1 0) = (\<Sum>c<10. nd3_get ?gA c (1 - 1) 0) + 27000 / 187"
    unfolding X S by simp_all
  have S0: "nd3_get ?gA (seirIndex_val susceptible) 0 0 = - 500"
    using S by simp
  show ?thesis using h hA(2,4) p eq S0 c r by simp
qed

text \<open>
  Without the condition on the new susceptible value the sums do differ. When all 1000 incarcerated people of the sample facility are infected on day zero, the
  first group starts with a susceptible value of -500; on day one (adjustment zero) the
  floor lifts it to 0 and the group's sum grows from 1000 to more than 1100.
\<close>

theorem mass_moved_between_compartments_counterexample:
  "expectedPopulationChanges (getAllBracketCurves 0
      (sampleInputs\<lparr>ageGroupInitiallyInfected := [1000, 0, 0, 0, 0, 0, 0, 0, 0]\<rparr>)) ! 1 = 0
   \<and> (\<Sum>c<10. nd3_get (projectionGrid (getAllBracketCurves 0
      (sampleInputs\<lparr>ageGroupInitiallyInfected := [1000, 0, 0, 0, 0, 0, 0, 0, 0]\<rparr>))) c 0 0)
     = 1000
   \<and> (\<Sum>c<10. nd3_get (projectionGrid (getAllBracketCurves 0
      (sampleInputs\<lparr>ageGroupInitiallyInfected := [1000, 0, 0, 0, 0, 0, 0, 0, 0]\<rparr>))) c 1 0)
     > 1100"
proof -
  let ?inp = "sampleInputs\<lparr>ageGroupInitiallyInfected := [1000, 0, 0, 0, 0, 0, 0, 0, 0]\<rparr>"
  define R where "R = groupInputs (dayEnv 0 ?inp) 1 (runPop 0 ?inp (1 - 1))
       (totalInfectiousOf (runState 0 ?inp (1 - 1)))
       (totalSusceptibleIncarceratedOf (runState 0 ?inp (1 - 1)))
       (runState 0 ?inp (1 - 1) ! 0) (ageGroupFatalityRates ! 0) 0"
  have n: "numDays ?inp = 5" by (simp add: sample_fields)
  have ch: "expectedPopulationChanges (getAllBracketCurves 0 ?inp) ! 1 = 0"
    by (simp add: changes_run sample_fields resolveChanges_None)
  have s0: "(\<Sum>c<10. nd3_get (projectionGrid (getAllBracketCurves 0 ?inp)) c 0 0) = 1000"
    by (simp add: grid_row_sum n dayZeroState_all_infected)
  have row: "runState 0 ?inp 1 ! 0 = simulateOneDay R"
    unfolding R_def by (rule runState_pred_row) simp_all
  have prior: "priorSimulation R = [- 500, 500, 570, 253, 41, 12, 4, 1, 74, 45]"
    unfolding R_def by (simp add: groupInputs_def dayZeroState_all_infected)
  have sa: "susceptibleAdjusted R = - 500"
    unfolding R_def
    by (simp add: susceptibleAdjusted_group env_sample dayZeroState_all_infected)
  have c: "cSusceptible R = - 66500 / 187"
    unfolding R_def
    by (simp add: cSusceptible_group susceptibleAdjusted_group env_sample
        dayZeroState_all_infected
        totalInfectiousOf_9 runPop_no_changes sample_fields sum_pops_sample rate_defs)
  have "sum_list (simulateOneDay R) = 1000 - (- 500) + (- 66500 / 187)
      + max (- 500 - (- 66500 / 187)) 0"
    using sum_simulateOneDay[of R] by (simp add: prior sa c)
  then have "sum_list (runState 0 ?inp 1 ! 0) > 1100"
    unfolding row by simp
  then have s1: "(\<Sum>c<10. nd3_get (projectionGrid (getAllBracketCurves 0 ?inp)) c 1 0) > 1100"
    by (simp add: grid_row_sum n)
  show ?thesis using ch s0 s1 by simp
qed

text \<open>
  C2. Every value of the projection grid is at least zero when: no group
  starts with a negative infected count or with more than its adjusted population can
  seed (infected plus exposed at most the population); the dormitory fraction lies in
  [0, 1] and the occupancy is not negative; and on every simulated day the prior day's
  total population is not negative and the release of the day does not exceed the prior
  day's susceptible incarcerated population (or that population is zero).
\<close>

theorem grid_values_nonnegative:
  assumes "\<forall>g<9. g < length (ageGroupPopulations inputs)
        \<and> g < length (ageGroupInitiallyInfected inputs) \<longrightarrow>
      0 \<le> ageGroupInitiallyInfected inputs ! g
      \<and> ageGroupInitiallyInfected inputs ! g
          + ageGroupInitiallyInfected inputs ! g * rExposedToInfectious
        \<le> adjustedPopulations inputs ! g"
    and "0 \<le> facilityDormitoryPct inputs" "facilityDormitoryPct inputs \<le> 1"
    and "0 \<le> facilityOccupancyPct inputs"
    and "\<forall>d. 1 \<le> d \<and> d < numDays inputs \<longrightarrow>
      0 \<le> totalPopulationByDay (getAllBracketCurves today inputs) ! (d - 1)
      \<and> ((\<Sum>g<8. nd3_get (projectionGrid (getAllBracketCurves today inputs))
                  (seirIndex_val susceptible) (d - 1) g) = 0
         \<or> 0 \<le> (\<Sum>g<8. nd3_get (projectionGrid (getAllBracketCurves today inputs))
                  (seirIndex_val susceptible) (d - 1) g)
              + expectedPopulationChanges (getAllBracketCurves today inputs) ! d)"
    and "d < numDays inputs" "g < 9" "c < 10"
  shows "0 \<le> nd3_get (projectionGrid (getAllBracketCurves today inputs)) c d g"
proof -
  have days: "\<forall>m. Suc m \<le> d \<longrightarrow>
      0 \<le> runPop today inputs m
      \<and> (totalSusceptibleIncarceratedOf (runState today inputs m) = 0
         \<or> 0 \<le> totalSusceptibleIncarceratedOf (runState today inputs m)
              + envChanges (dayEnv today inputs) ! Suc m)"
  proof (intro allI impI)
    fix m assume "Suc m \<le> d"
    then have m: "1 \<le> Suc m \<and> Suc m < numDays inputs" "m < numDays inputs"
      using assms(6) by simp_all
    have e: "expectedPopulationChanges (getAllBracketCurves today inputs)
        = envChanges (dayEnv today inputs)"
      by (simp add: changes_run dayEnv_def)
    from assms(5) m(1) show "0 \<le> runPop today inputs m
      \<and> (totalSusceptibleIncarceratedOf (runState today inputs m) = 0
         \<or> 0 \<le> totalSusceptibleIncarceratedOf (runState today inputs m)
              + envChanges (dayEnv today inputs) ! Suc m)"
      unfolding e using grid_total_susceptible[OF m(2), of today] tpbd_runPop[OF m(2), of today]
      by (metis diff_Suc_1)
  qed
  have "\<forall>g<9. \<forall>x \<in> set (runState today inputs d ! g). 0 \<le> x"
    using assms(1-4) days by (rule runState_nonneg)
  then have "0 \<le> runState today inputs d ! g ! c"
    using assms(7,8) by (intro row_entry_nonneg) simp_all
  then show ?thesis using assms(6-8) by (simp add: grid_runState)
qed

theorem grid_values_nonnegative_witness:
  "0 \<le> facilityDormitoryPct sampleRelease \<and> facilityDormitoryPct sampleRelease \<le> 1
   \<and> 0 \<le> facilityOccupancyPct sampleRelease
   \<and> (1::nat) < numDays sampleRelease
   \<and> totalPopulationByDay (getAllBracketCurves 0 sampleRelease) ! 0 = 1100
   \<and> (\<Sum>g<8. nd3_get (projectionGrid (getAllBracketCurves 0 sampleRelease))
                  (seirIndex_val susceptible) 0 g) = 850
   \<and> expectedPopulationChanges (getAllBracketCurves 0 sampleRelease) ! 1 = - 50
   \<and> 0 \<le> nd3_get (projectionGrid (getAllBracketCurves 0 sampleRelease))
            (seirIndex_val exposed) 1 (ageGroupIndex_val ageUnknown)"
proof -
  have f: "0 \<le> facilityDormitoryPct sampleRelease" "facilityDormitoryPct sampleRelease \<le> 1"
    "0 \<le> facilityOccupancyPct sampleRelease" "(1::nat) < numDays sampleRelease"
    "numDays sampleRelease = 2" "0 < numDays sampleRelease"
    by (simp_all add: sampleRelease_def sample_fields)
  have pops: "adjustedPopulations sampleRelease = [1000, 0, 0, 0, 0, 0, 0, 0, 100]"
    by (simp add: sampleRelease_def sampleInputs_def adjustedPopulations_def
        adjustPopulations_def upt_rec[of 0] upt_rec[of 1]
      upt_rec[of 2] upt_rec[of 3] upt_rec[of 4]
      upt_rec[of 5] upt_rec[of 6] upt_rec[of 7] upt_rec[of 8] upt_rec[of 9])
  have inf: "ageGroupInitiallyInfected sampleRelease = [100, 0, 0, 0, 0, 0, 0, 0, 0]"
    by (simp add: sampleRelease_def sampleInputs_def)
  have init: "\<forall>g<9. g < length (ageGroupPopulations sampleRelease)
        \<and> g < length (ageGroupInitiallyInfected sampleRelease) \<longrightarrow>
      0 \<le> ageGroupInitiallyInfected sampleRelease ! g
      \<and> ageGroupInitiallyInfected sampleRelease ! g
          + ageGroupInitiallyInfected sampleRelease ! g * rExposedToInfectious
        \<le> adjustedPopulations sampleRelease ! g"
  proof (intro allI impI)
    fix g :: nat assume "g < 9"
    from nat_less_9_cases[OF this]
    show "0 \<le> ageGroupInitiallyInfected sampleRelease ! g
      \<and> ageGroupInitiallyInfected sampleRelease ! g
          + ageGroupInitiallyInfected sampleRelease ! g * rExposedToInfectious
        \<le> adjustedPopulations sampleRelease ! g"
      unfolding pops inf by (elim disjE) (simp_all add: rate_defs)
  qed
  have tp: "totalPopulationByDay (getAllBracketCurves 0 sampleRelease) ! 0 = 1100"
    using f(6) by (simp add: tpbd_runPop runPop_def pops)
  have sus: "(\<Sum>g<8. nd3_get (projectionGrid (getAllBracketCurves 0 sampleRelease))
                  (seirIndex_val susceptible) 0 g) = 850"
    using grid_total_susceptible[OF f(6), of 0]
    by (simp add: dayZeroState_sampleRelease dayZeroState_sample
        totalSusceptibleIncarceratedOf_9)
  have ch: "expectedPopulationChanges (getAllBracketCurves 0 sampleRelease) ! 1 = - 50"
    by (simp add: changes_run f(5) sampleRelease_def resolveChanges_nth releasedOn_def
        differenceInCalendarDays_def)
  have days: "\<forall>d. 1 \<le> d \<and> d < numDays sampleRelease \<longrightarrow>
      0 \<le> totalPopulationByDay (getAllBracketCurves 0 sampleRelease) ! (d - 1)
      \<and> ((\<Sum>g<8. nd3_get (projectionGrid (getAllBracketCurves 0 sampleRelease))
                  (seirIndex_val susceptible) (d - 1) g) = 0
         \<or> 0 \<le> (\<Sum>g<8. nd3_get (projectionGrid (getAllBracketCurves 0 sampleRelease))
                  (seirIndex_val susceptible) (d - 1) g)
              + expectedPopulationChanges (getAllBracketCurves 0 sampleRelease) ! d)"
  proof (intro allI impI)
    fix d :: nat assume "1 \<le> d \<and> d < numDays sampleRelease"
    then have d: "d = 1" using f(5) by simp
    show "0 \<le> totalPopulationByDay (getAllBracketCurves 0 sampleRelease) ! (d - 1)
      \<and> ((\<Sum>g<8. nd3_get (projectionGrid (getAllBracketCurves 0 sampleRelease))
                  (seirIndex_val susceptible) (d - 1) g) = 0
         \<or> 0 \<le> (\<Sum>g<8. nd3_get (projectionGrid (getAllBracketCurves 0 sampleRelease))
                  (seirIndex_val susceptible) (d - 1) g)
              + expectedPopulationChanges (getAllBracketCurves 0 sampleRelease) ! d)"
      unfolding d using tp sus ch by simp
  qed
  have "0 \<le> nd3_get (projectionGrid (getAllBracketCurves 0 sampleRelease))
            (seirIndex_val exposed) 1 (ageGroupIndex_val ageUnknown)"
    by (rule grid_values_nonnegative[OF init f(1,2,3) days]) (simp_all add: f)
  then show ?thesis using f tp sus ch by blast
qed

text \<open>
  The conditions are needed. With all 1000 incarcerated people infected on day zero, the
  day-zero susceptible value of the first group is 1000 - 1000 - 500.
\<close>

theorem grid_values_nonnegative_counterexample:
  "nd3_get (projectionGrid (getAllBracketCurves 0
      (sampleInputs\<lparr>ageGroupInitiallyInfected := [1000, 0, 0, 0, 0, 0, 0, 0, 0]\<rparr>)))
      (seirIndex_val susceptible) 0 (ageGroupIndex_val ageUnknown) = - 500"
  by (simp add: grid_runState sample_fields dayZeroState_all_infected)

text \<open>
  C3. Two runs that differ only in the dormitory fraction give the staff the
  same ten values on day \<open>d\<close> whenever the total infectious counts of the two runs agree on
  every day before \<open>d\<close>; they always do on days 0 and 1, so the staff rows agree on days 0,
  1 and 2.
\<close>

theorem staff_rows_and_dormitory_fraction:
  "(d < numDays inputs \<and> d \<le> 2 \<longrightarrow>
      (\<forall>c<10. nd3_get (projectionGrid (getAllBracketCurves today inputs)) c d
                  (ageGroupIndex_val staff)
             = nd3_get (projectionGrid
                  (getAllBracketCurves today (inputs\<lparr>facilityDormitoryPct := p\<rparr>))) c d
                  (ageGroupIndex_val staff)))
   \<and> (d < numDays inputs
       \<and> (\<forall>d'<d.
             (\<Sum>g<9. nd3_get (projectionGrid (getAllBracketCurves today inputs))
                      (seirIndex_val infectious) d' g)
             = (\<Sum>g<9. nd3_get (projectionGrid
                      (getAllBracketCurves today (inputs\<lparr>facilityDormitoryPct := p\<rparr>)))
                      (seirIndex_val infectious) d' g)) \<longrightarrow>
      (\<forall>c<10. nd3_get (projectionGrid (getAllBracketCurves today inputs)) c d
                  (ageGroupIndex_val staff)
             = nd3_get (projectionGrid
                  (getAllBracketCurves today (inputs\<lparr>facilityDormitoryPct := p\<rparr>))) c d
                  (ageGroupIndex_val staff)))"
proof (intro conjI impI)
  let ?inputs' = "inputs\<lparr>facilityDormitoryPct := p\<rparr>"
  have n: "numDays ?inputs' = numDays inputs" by simp
  have t0: "totalInfectiousOf (runState today inputs 0)
      = totalInfectiousOf (runState today ?inputs' 0)"
    by simp
  have t1: "totalInfectiousOf (runState today inputs (Suc 0))
      = totalInfectiousOf (runState today ?inputs' (Suc 0))"
    by (rule total_infectious_step) simp_all
  {
    assume h: "d < numDays inputs \<and> d \<le> 2"
    have "\<forall>d' < d. totalInfectiousOf (runState today inputs d')
        = totalInfectiousOf (runState today ?inputs' d')"
    proof (intro allI impI)
      fix d' assume "d' < d"
      then have "d' = 0 \<or> d' = Suc 0" using h by auto
      then show "totalInfectiousOf (runState today inputs d')
          = totalInfectiousOf (runState today ?inputs' d')"
        using t0 t1 by auto
    qed
    then have "runState today inputs d ! 8 = runState today ?inputs' d ! 8"
      by (rule staff_rows_upto)
    then show "\<forall>c<10. nd3_get (projectionGrid (getAllBracketCurves today inputs)) c d
                  (ageGroupIndex_val staff)
             = nd3_get (projectionGrid (getAllBracketCurves today ?inputs')) c d
                  (ageGroupIndex_val staff)"
      using h n by (simp add: grid_runState)
  }
  {
    assume h: "d < numDays inputs
       \<and> (\<forall>d'<d.
             (\<Sum>g<9. nd3_get (projectionGrid (getAllBracketCurves today inputs))
                      (seirIndex_val infectious) d' g)
             = (\<Sum>g<9. nd3_get (projectionGrid (getAllBracketCurves today ?inputs'))
                      (seirIndex_val infectious) d' g))"
    have "\<forall>d' < d. totalInfectiousOf (runState today inputs d')
        = totalInfectiousOf (runState today ?inputs' d')"
    proof (intro allI impI)
      fix d' assume d': "d' < d"
      then have lt: "d' < numDays inputs" "d' < numDays ?inputs'" using h by simp_all
      show "totalInfectiousOf (runState today inputs d')
          = totalInfectiousOf (runState today ?inputs' d')"
        using h d' grid_total_infectious[OF lt(1), of today]
          grid_total_infectious[OF lt(2), of today] by simp
    qed
    then have "runState today inputs d ! 8 = runState today ?inputs' d ! 8"
      by (rule staff_rows_upto)
    then show "\<forall>c<10. nd3_get (projectionGrid (getAllBracketCurves today inputs)) c d
                  (ageGroupIndex_val staff)
             = nd3_get (projectionGrid (getAllBracketCurves today ?inputs')) c d
                  (ageGroupIndex_val staff)"
      using h n by (simp add: grid_runState)
  }
qed

theorem staff_rows_and_dormitory_fraction_witness:
  "(2::nat) < numDays sampleInputs \<and> (2::nat) \<le> 2
   \<and> nd3_get (projectionGrid (getAllBracketCurves 0 sampleInputs))
        (seirIndex_val susceptible) 2 (ageGroupIndex_val staff)
     = nd3_get (projectionGrid
          (getAllBracketCurves 0 (sampleInputs\<lparr>facilityDormitoryPct := 0\<rparr>)))
        (seirIndex_val susceptible) 2 (ageGroupIndex_val staff)
   \<and> (1::nat) < numDays sampleInputs
   \<and> (\<Sum>g<9. nd3_get (projectionGrid (getAllBracketCurves 0 sampleInputs))
              (seirIndex_val infectious) 0 g) = 57
   \<and> (\<Sum>g<9. nd3_get (projectionGrid
              (getAllBracketCurves 0 (sampleInputs\<lparr>facilityDormitoryPct := 0\<rparr>)))
              (seirIndex_val infectious) 0 g) = 57
   \<and> nd3_get (projectionGrid (getAllBracketCurves 0 sampleInputs))
        (seirIndex_val exposed) 1 (ageGroupIndex_val staff)
     = nd3_get (projectionGrid
          (getAllBracketCurves 0 (sampleInputs\<lparr>facilityDormitoryPct := 0\<rparr>)))
        (seirIndex_val exposed) 1 (ageGroupIndex_val staff)"
proof -
  let ?B = "sampleInputs\<lparr>facilityDormitoryPct := 0\<rparr>"
  have n: "(2::nat) < numDays sampleInputs" "(1::nat) < numDays sampleInputs"
    "0 < numDays sampleInputs" "0 < numDays ?B"
    by (simp_all add: sample_fields)
  have i0: "(\<Sum>g<9. nd3_get (projectionGrid (getAllBracketCurves 0 sampleInputs))
              (seirIndex_val infectious) 0 g) = 57"
    using grid_total_infectious[OF n(3), of 0]
    by (simp add: dayZeroState_sample totalInfectiousOf_9)
  have i0': "(\<Sum>g<9. nd3_get (projectionGrid (getAllBracketCurves 0 ?B))
              (seirIndex_val infectious) 0 g) = 57"
    using grid_total_infectious[OF n(4), of 0]
    by (simp add: dayZeroState_sample totalInfectiousOf_9)
  have h: "\<forall>d'<1.
      (\<Sum>g<9. nd3_get (projectionGrid (getAllBracketCurves 0 sampleInputs))
              (seirIndex_val infectious) d' g)
      = (\<Sum>g<9. nd3_get (projectionGrid (getAllBracketCurves 0 ?B))
              (seirIndex_val infectious) d' g)"
    using i0 i0' by simp
  have 1: "\<forall>c<10. nd3_get (projectionGrid (getAllBracketCurves 0 sampleInputs)) c 2
                  (ageGroupIndex_val staff)
             = nd3_get (projectionGrid (getAllBracketCurves 0 ?B)) c 2
                  (ageGroupIndex_val staff)"
    using staff_rows_and_dormitory_fraction[of 2 sampleInputs 0 0] n by simp
  have 2: "\<forall>c<10. nd3_get (projectionGrid (getAllBracketCurves 0 sampleInputs)) c 1
                  (ageGroupIndex_val staff)
             = nd3_get (projectionGrid (getAllBracketCurves 0 ?B)) c 1
                  (ageGroupIndex_val staff)"
    using conjunct2[OF staff_rows_and_dormitory_fraction[of 1 sampleInputs 0 0]] n(2) h
    by blast
  show ?thesis using n i0 i0' 1 2 by simp
qed

text \<open>
  From day 3 on the staff rows can differ. In the sample facility the staff's susceptible value on day 3 is about 85.5 with all
  incarcerated people in dormitories and about 86.4 with all of them in cells: the total
  infectious count of day 2, which the staff's exposure multiplies, depends on the housing
  of the incarcerated groups.
\<close>

theorem staff_rows_and_dormitory_fraction_counterexample:
  "nd3_get (projectionGrid (getAllBracketCurves 0 sampleInputs))
      (seirIndex_val susceptible) 3 (ageGroupIndex_val staff) < 86
   \<and> 86 < nd3_get (projectionGrid
         (getAllBracketCurves 0 (sampleInputs\<lparr>facilityDormitoryPct := 0\<rparr>)))
      (seirIndex_val susceptible) 3 (ageGroupIndex_val staff)"
proof -
  have a: "runState 0 sampleInputs 3 ! 8 ! 0 < 86"
    by (simp add: sparse_eval env_sample sample_fields sum_pops_sample dayZeroState_sample
        rate_defs)
  have b: "86 < runState 0 (sampleInputs\<lparr>facilityDormitoryPct := 0\<rparr>) 3 ! 8 ! 0"
    by (simp add: sparse_eval env_sample_cells_only sample_fields sum_pops_sample
        dayZeroState_sample rate_defs)
  show ?thesis using a b by (simp add: grid_runState sample_fields)
qed



text \<open>
  C5. On every day \<open>N\<close> from 1 to \<open>numDays - 1\<close> the total population is the total of day
  \<open>N - 1\<close> plus the resolved adjustment of day \<open>N\<close>; and a planned release of 50 people
  dated three days after today, within the horizon and with no other release resolving to
  that day, is the entry -50 at index 3 of the resolved adjustments, so that the total of
  day 3 is the total of day 2 minus 50.
\<close>

theorem planned_release_applied:
  "(1 \<le> N \<and> N < numDays inputs \<longrightarrow>
      totalPopulationByDay (getAllBracketCurves today inputs) ! N
      = totalPopulationByDay (getAllBracketCurves today inputs) ! (N - 1)
        + expectedPopulationChanges (getAllBracketCurves today inputs) ! N)
   \<and> (3 < numDays inputs
       \<and> plannedReleases inputs = Some (xs @ \<lparr>date = Some (today + 3), count = Some 50\<rparr> # ys)
       \<and> (\<forall>r \<in> set (xs @ ys). releasedOn today 3 r = 0) \<longrightarrow>
      expectedPopulationChanges (getAllBracketCurves today inputs) ! 3 = - 50
      \<and> totalPopulationByDay (getAllBracketCurves today inputs) ! 3
        = totalPopulationByDay (getAllBracketCurves today inputs) ! 2 - 50)"
proof (intro conjI impI)
  assume "1 \<le> N \<and> N < numDays inputs"
  then show "totalPopulationByDay (getAllBracketCurves today inputs) ! N
      = totalPopulationByDay (getAllBracketCurves today inputs) ! (N - 1)
        + expectedPopulationChanges (getAllBracketCurves today inputs) ! N"
    by (simp add: tpbd_step)
next
  assume h: "3 < numDays inputs
       \<and> plannedReleases inputs = Some (xs @ \<lparr>date = Some (today + 3), count = Some 50\<rparr> # ys)
       \<and> (\<forall>r \<in> set (xs @ ys). releasedOn today 3 r = 0)"
  have z: "(\<Sum>r\<leftarrow>xs. releasedOn today 3 r) = 0" "(\<Sum>r\<leftarrow>ys. releasedOn today 3 r) = 0"
    using h by (auto intro: sum_list_zero)
  have r: "releasedOn today 3 \<lparr>date = Some (today + 3), count = Some 50\<rparr> = 50"
    by (simp add: releasedOn_def differenceInCalendarDays_def)
  show c: "expectedPopulationChanges (getAllBracketCurves today inputs) ! 3 = - 50"
    using h by (simp add: changes_run resolveChanges_nth z r)
  show "totalPopulationByDay (getAllBracketCurves today inputs) ! 3
        = totalPopulationByDay (getAllBracketCurves today inputs) ! 2 - 50"
    using tpbd_step[of 3 inputs today] h c by simp
qed

theorem planned_release_applied_witness:
  "(1::nat) \<le> 3 \<and> 3 < numDays sampleInputs
   \<and> releasedOn 10 3 \<lparr>date = Some 11, count = Some 20\<rparr> = 0
   \<and> releasedOn 10 3 \<lparr>date = None, count = Some 5\<rparr> = 0
   \<and> expectedPopulationChanges (getAllBracketCurves 10
        (sampleInputs\<lparr>plannedReleases := Some [\<lparr>date = Some 11, count = Some 20\<rparr>,
           \<lparr>date = Some 13, count = Some 50\<rparr>, \<lparr>date = None, count = Some 5\<rparr>]\<rparr>)) ! 3 = - 50
   \<and> totalPopulationByDay (getAllBracketCurves 10
        (sampleInputs\<lparr>plannedReleases := Some [\<lparr>date = Some 11, count = Some 20\<rparr>,
           \<lparr>date = Some 13, count = Some 50\<rparr>, \<lparr>date = None, count = Some 5\<rparr>]\<rparr>)) ! 3
     = totalPopulationByDay (getAllBracketCurves 10
        (sampleInputs\<lparr>plannedReleases := Some [\<lparr>date = Some 11, count = Some 20\<rparr>,
           \<lparr>date = Some 13, count = Some 50\<rparr>, \<lparr>date = None, count = Some 5\<rparr>]\<rparr>)) ! 2
       - 50"
proof -
  let ?a = "\<lparr>date = Some 11, count = Some 20\<rparr>"
  let ?b = "\<lparr>date = None, count = Some (5::real)\<rparr>"
  let ?inp = "sampleInputs\<lparr>plannedReleases :=
      Some [?a, \<lparr>date = Some 13, count = Some 50\<rparr>, ?b]\<rparr>"
  have n: "numDays sampleInputs = 5" "numDays ?inp = 5" by (simp_all add: sample_fields)
  have r: "releasedOn 10 3 ?a = 0" "releasedOn 10 3 ?b = 0"
    by (simp_all add: releasedOn_def differenceInCalendarDays_def)
  have p: "plannedReleases ?inp = Some ([?a] @ \<lparr>date = Some (10 + 3), count = Some 50\<rparr> # [?b])"
    by simp
  have o: "\<forall>r \<in> set ([?a] @ [?b]). releasedOn 10 3 r = 0"
    using r by simp
  from planned_release_applied[where N = 3 and inputs = ?inp and today = 10
      and xs = "[?a]" and ys = "[?b]"] n p o r
  show ?thesis by simp
qed

text \<open>
  C6. In the resolved per-day adjustment sequence an entry of the planned-release list
  with no date, no count or a zero count changes nothing; neither does an entry whose day
  offset is at or beyond the horizon; and the entry of the sequence for a day within the
  horizon is minus the sum of the counts of all complete releases that resolve to that
  day, so that releases on the same day accumulate.
\<close>

theorem planned_release_resolution:
  "((date r = None \<or> count r = None \<or> count r = Some 0) \<longrightarrow>
      expectedPopulationChanges
        (getAllBracketCurves today (inputs\<lparr>plannedReleases := Some (xs @ r # ys)\<rparr>))
      = expectedPopulationChanges
          (getAllBracketCurves today (inputs\<lparr>plannedReleases := Some (xs @ ys)\<rparr>)))
   \<and> ((date r = Some d \<and> int (numDays inputs) \<le> differenceInCalendarDays d today) \<longrightarrow>
      expectedPopulationChanges
        (getAllBracketCurves today (inputs\<lparr>plannedReleases := Some (xs @ r # ys)\<rparr>))
      = expectedPopulationChanges
          (getAllBracketCurves today (inputs\<lparr>plannedReleases := Some (xs @ ys)\<rparr>)))
   \<and> (i < numDays inputs \<longrightarrow>
      expectedPopulationChanges
        (getAllBracketCurves today (inputs\<lparr>plannedReleases := Some rs\<rparr>)) ! i
      = - (\<Sum>r\<leftarrow>rs. releasedOn today i r))
   \<and> length (expectedPopulationChanges (getAllBracketCurves today inputs)) = numDays inputs"
  by (auto simp: changes_run resolveChanges_nth intro: resolveChanges_ignored)

theorem planned_release_resolution_witness:
  "expectedPopulationChanges
     (getAllBracketCurves 0 (sampleInputs\<lparr>plannedReleases :=
        Some ([\<lparr>date = Some 3, count = Some 50\<rparr>] @ \<lparr>date = None, count = Some 7\<rparr>
               # [\<lparr>date = Some 3, count = Some 20\<rparr>])\<rparr>))
   = expectedPopulationChanges
       (getAllBracketCurves 0 (sampleInputs\<lparr>plannedReleases :=
          Some ([\<lparr>date = Some 3, count = Some 50\<rparr>] @ [\<lparr>date = Some 3, count = Some 20\<rparr>])\<rparr>))
   \<and> expectedPopulationChanges
     (getAllBracketCurves 0 (sampleInputs\<lparr>plannedReleases :=
        Some ([\<lparr>date = Some 3, count = Some 50\<rparr>] @ \<lparr>date = Some 5, count = Some 7\<rparr>
               # [\<lparr>date = Some 3, count = Some 20\<rparr>])\<rparr>))
   = expectedPopulationChanges
       (getAllBracketCurves 0 (sampleInputs\<lparr>plannedReleases :=
          Some ([\<lparr>date = Some 3, count = Some 50\<rparr>] @ [\<lparr>date = Some 3, count = Some 20\<rparr>])\<rparr>))
   \<and> expectedPopulationChanges
       (getAllBracketCurves 0 (sampleInputs\<lparr>plannedReleases :=
          Some [\<lparr>date = Some 3, count = Some 50\<rparr>, \<lparr>date = Some 3, count = Some 20\<rparr>]\<rparr>)) ! 3
     = - 70"
proof -
  let ?a = "\<lparr>date = Some 3, count = Some 50\<rparr>"
  let ?b = "\<lparr>date = Some 3, count = Some 20\<rparr>"
  have n: "numDays sampleInputs = 5" by (simp add: sampleInputs_def)
  note t = planned_release_resolution[where today = 0 and inputs = sampleInputs
      and xs = "[?a]" and ys = "[?b]" and i = 3 and rs = "[?a, ?b]"]
  have 1: "expectedPopulationChanges
      (getAllBracketCurves 0 (sampleInputs\<lparr>plannedReleases := Some ([?a] @ \<lparr>date = None, count = Some 7\<rparr> # [?b])\<rparr>))
    = expectedPopulationChanges (getAllBracketCurves 0 (sampleInputs\<lparr>plannedReleases := Some ([?a] @ [?b])\<rparr>))"
    using t[where r = "\<lparr>date = None, count = Some 7\<rparr>"] by simp
  have 2: "expectedPopulationChanges
      (getAllBracketCurves 0 (sampleInputs\<lparr>plannedReleases := Some ([?a] @ \<lparr>date = Some 5, count = Some 7\<rparr> # [?b])\<rparr>))
    = expectedPopulationChanges (getAllBracketCurves 0 (sampleInputs\<lparr>plannedReleases := Some ([?a] @ [?b])\<rparr>))"
    using t[where r = "\<lparr>date = Some 5, count = Some 7\<rparr>" and d = 5]
    by (simp add: differenceInCalendarDays_def n)
  have 3: "expectedPopulationChanges
       (getAllBracketCurves 0 (sampleInputs\<lparr>plannedReleases := Some [?a, ?b]\<rparr>)) ! 3 = - 70"
    using t by (simp add: releasedOn_def differenceInCalendarDays_def n)
  show ?thesis using 1 2 3 by simp
qed

text \<open>
  C7. The outputs are a function of the inputs and of the current date, which
  enters only through the day offsets of the planned releases: without planned releases
  the outputs are the same on every date, and moving the current date and the date of
  every planned release by the same number of days leaves the outputs unchanged.
\<close>

theorem outputs_depend_on_date_offsets_only:
  "getAllBracketCurves today1 (inputs\<lparr>plannedReleases := None\<rparr>)
     = getAllBracketCurves today2 (inputs\<lparr>plannedReleases := None\<rparr>)
   \<and> getAllBracketCurves (today + k)
        (inputs\<lparr>plannedReleases := map_option (map (shiftRelease k)) (plannedReleases inputs)\<rparr>)
     = getAllBracketCurves today inputs"
proof
  show "getAllBracketCurves today1 (inputs\<lparr>plannedReleases := None\<rparr>)
     = getAllBracketCurves today2 (inputs\<lparr>plannedReleases := None\<rparr>)"
    by (rule getAllBracketCurves_changes_only[where rel = None])
      (simp_all add: resolveChanges_None)
  show "getAllBracketCurves (today + k)
        (inputs\<lparr>plannedReleases := map_option (map (shiftRelease k)) (plannedReleases inputs)\<rparr>)
     = getAllBracketCurves today inputs"
    by (rule getAllBracketCurves_changes_only[where rel = "plannedReleases inputs"])
      (simp_all add: resolveChanges_shift)
qed

text \<open>
  The same inputs, with a release dated day 3, give different outputs when the current
  date is day 0 and when it is day 1.
\<close>

theorem outputs_depend_on_date_counterexample:
  "getAllBracketCurves 0
      (sampleInputs\<lparr>plannedReleases := Some [\<lparr>date = Some 3, count = Some 50\<rparr>]\<rparr>)
   \<noteq> getAllBracketCurves 1
      (sampleInputs\<lparr>plannedReleases := Some [\<lparr>date = Some 3, count = Some 50\<rparr>]\<rparr>)"
proof -
  let ?inp = "sampleInputs\<lparr>plannedReleases := Some [\<lparr>date = Some 3, count = Some 50\<rparr>]\<rparr>"
  have n: "numDays ?inp = 5" by (simp add: sampleInputs_def)
  have "expectedPopulationChanges (getAllBracketCurves 0 ?inp) ! 3 = - 50"
    by (simp add: changes_run n resolveChanges_nth releasedOn_def differenceInCalendarDays_def)
  moreover have "expectedPopulationChanges (getAllBracketCurves 1 ?inp) ! 3 = 0"
    by (simp add: changes_run n resolveChanges_nth releasedOn_def differenceInCalendarDays_def)
  ultimately show ?thesis by auto
qed

text \<open>
  C8. For every spread-intensity level the adjusted cell and dormitory intensities are
  \<open>base - (1 - occupancy) * (base - floor)\<close> with the floors 0.8 and 1.7; at occupancy 0 they
  are the floors, at occupancy 1 the base reproduction numbers of the level; and these are
  the intensities the day loop runs with.
\<close>

theorem occupancy_adjusted_intensities:
  "adjustedRateOfSpreadCells factor occupancy
     = R0Cells factor - (1 - occupancy) * (R0Cells factor - 0.8)
   \<and> adjustedRateOfSpreadDorms factor occupancy
     = R0Dorms factor - (1 - occupancy) * (R0Dorms factor - 1.7)
   \<and> adjustedRateOfSpreadCells factor 0 = 0.8
   \<and> adjustedRateOfSpreadDorms factor 0 = 1.7
   \<and> adjustedRateOfSpreadCells factor 1 = R0Cells factor
   \<and> adjustedRateOfSpreadDorms factor 1 = R0Dorms factor
   \<and> envRateOfSpreadCells (dayEnv today inputs)
     = adjustedRateOfSpreadCells (rateOfSpreadFactor inputs) (facilityOccupancyPct inputs)
   \<and> envRateOfSpreadDorms (dayEnv today inputs)
     = adjustedRateOfSpreadDorms (rateOfSpreadFactor inputs) (facilityOccupancyPct inputs)"
  by (simp add: adjustedRateOfSpreadCells_def adjustedRateOfSpreadDorms_def
      rateOfSpreadCellsAdjustment_def rateOfSpreadDormsAdjustment_def dayEnv_def)

text \<open>
  C9. For a group with population 1000 and initially-infected count 100, when
  the population turnover is zero or the group is the staff, the day-zero susceptible
  value is \<open>1000 - 100 - 100 * rExposedToInfectious\<close> and the day-zero infectious value is
  \<open>100 * 0.57\<close>.
\<close>

theorem day_zero_seed:
  assumes "0 < numDays inputs" "g < 9"
    and "g < length (ageGroupPopulations inputs)"
    and "g < length (ageGroupInitiallyInfected inputs)"
    and "ageGroupPopulations inputs ! g = 1000"
    and "ageGroupInitiallyInfected inputs ! g = 100"
    and "populationTurnover inputs = 0 \<or> g = ageGroupIndex_val staff"
  shows "nd3_get (projectionGrid (getAllBracketCurves today inputs))
           (seirIndex_val susceptible) 0 g = 1000 - 100 - 100 * rExposedToInfectious
    \<and> nd3_get (projectionGrid (getAllBracketCurves today inputs))
           (seirIndex_val infectious) 0 g = 100 * 0.57"
proof -
  have a: "adjustedPopulations inputs ! g = 1000"
    using assms(3,5,7) by (auto simp: adjustedPopulations_def adjustPopulations_nth)
  have row: "dayZeroState inputs ! g = initialRow 1000 100"
    using assms(2,3,4,6) a by (simp add: dayZeroState_nth)
  show ?thesis using assms(1,2)
    by (simp add: grid_runState row initialRow_def pInitiallyInfectious_def)
qed

theorem day_zero_seed_witness:
  "0 < numDays sampleInputs \<and> (0::nat) < 9
   \<and> 0 < length (ageGroupPopulations sampleInputs)
   \<and> 0 < length (ageGroupInitiallyInfected sampleInputs)
   \<and> ageGroupPopulations sampleInputs ! 0 = 1000
   \<and> ageGroupInitiallyInfected sampleInputs ! 0 = 100
   \<and> populationTurnover sampleInputs = 0
   \<and> nd3_get (projectionGrid (getAllBracketCurves 0 sampleInputs)) 0 0 0 = 850
   \<and> nd3_get (projectionGrid (getAllBracketCurves 0 sampleInputs)) 2 0 0 = 57"
proof -
  have h: "0 < numDays sampleInputs" "(0::nat) < 9"
    "0 < length (ageGroupPopulations sampleInputs)"
    "0 < length (ageGroupInitiallyInfected sampleInputs)"
    "ageGroupPopulations sampleInputs ! 0 = 1000"
    "ageGroupInitiallyInfected sampleInputs ! 0 = 100"
    "populationTurnover sampleInputs = 0 \<or> (0::nat) = ageGroupIndex_val staff"
    by (simp_all add: sampleInputs_def)
  have t: "populationTurnover sampleInputs = 0" by (simp add: sampleInputs_def)
  from day_zero_seed[OF h, of 0] h t show ?thesis by (simp add: rate_defs)
qed

text \<open>
  With a population turnover of 1 the first group's population of 1000 is adjusted to
  1087.9 before the seeding, and its day-zero susceptible value is 937.9.
\<close>

theorem day_zero_seed_counterexample:
  "ageGroupPopulations (sampleInputs\<lparr>populationTurnover := 1\<rparr>) ! 0 = 1000
   \<and> ageGroupInitiallyInfected (sampleInputs\<lparr>populationTurnover := 1\<rparr>) ! 0 = 100
   \<and> nd3_get (projectionGrid (getAllBracketCurves 0 (sampleInputs\<lparr>populationTurnover := 1\<rparr>)))
        (seirIndex_val susceptible) 0 0 = 937.9
   \<and> nd3_get (projectionGrid (getAllBracketCurves 0 (sampleInputs\<lparr>populationTurnover := 1\<rparr>)))
        (seirIndex_val susceptible) 0 0 \<noteq> 1000 - 100 - 100 * rExposedToInfectious"
proof -
  let ?inp = "sampleInputs\<lparr>populationTurnover := 1\<rparr>"
  have n: "0 < numDays ?inp" by (simp add: sampleInputs_def)
  have a: "adjustedPopulations ?inp ! 0 = 1087.9"
    by (simp add: adjustedPopulations_def adjustPopulations_nth sampleInputs_def
        populationAdjustmentRatio_def)
  have "dayZeroState ?inp ! 0
      = initialRow (adjustedPopulations ?inp ! 0) (ageGroupInitiallyInfected ?inp ! 0)"
    by (rule dayZeroState_nth) (simp_all add: sampleInputs_def)
  also have "ageGroupInitiallyInfected ?inp ! 0 = 100" by (simp add: sampleInputs_def)
  finally have row: "dayZeroState ?inp ! 0 = initialRow 1087.9 100"
    unfolding a .
  have "nd3_get (projectionGrid (getAllBracketCurves 0 ?inp)) 0 0 0 = 937.9"
    using n by (simp add: grid_runState row initialRow_def rate_defs)
  then show ?thesis by (simp add: sampleInputs_def rate_defs)
qed

text \<open>
  C10. The eight fractions of the initial-case distribution add up to 1. When each of the
  nine groups has a population and an initially-infected count, the ten day-zero values of
  every group add up to the group's turnover-adjusted population, and the day-zero entry
  of the total population sequence is the sum of the whole day-zero grid.
\<close>

theorem day_zero_sums:
  assumes "0 < numDays inputs"
    and "length (ageGroupPopulations inputs) = 9"
    and "length (ageGroupInitiallyInfected inputs) = 9"
  shows "pInitiallyInfectious + pInitiallyQuarantined + pInitiallyHospitalized + pInitiallyIcu
        + pInitiallyHospitalRecovery + pInitiallyRecoveredMild
        + pInitiallyRecoveredHospitalized + pInitiallyDead = 1
    \<and> (\<forall>g<9. (\<Sum>c<10. nd3_get (projectionGrid (getAllBracketCurves today inputs)) c 0 g)
            = adjustedPopulations inputs ! g)
    \<and> totalPopulationByDay (getAllBracketCurves today inputs) ! 0
        = (\<Sum>g<9. \<Sum>c<10. nd3_get (projectionGrid (getAllBracketCurves today inputs)) c 0 g)"
proof -
  let ?grid = "projectionGrid (getAllBracketCurves today inputs)"
  have row: "(\<Sum>c<10. nd3_get ?grid c 0 g) = adjustedPopulations inputs ! g" if "g < 9" for g
  proof -
    have "(\<Sum>c<10. nd3_get ?grid c 0 g) = (\<Sum>c<10. dayZeroState inputs ! g ! c)"
      using assms(1) that by (intro sum.cong) (simp_all add: grid_runState)
    also have "\<dots> = sum_list (dayZeroState inputs ! g)"
      using that assms by (simp add: dayZeroState_nth sum_list_row[of _ 10])
    also have "\<dots> = adjustedPopulations inputs ! g"
      using that assms by (simp add: dayZeroState_nth sum_list_initialRow)
    finally show ?thesis .
  qed
  have "totalPopulationByDay (getAllBracketCurves today inputs) ! 0
      = sum_list (adjustedPopulations inputs)"
    using assms(1) by (simp add: tpbd_runPop runPop_def)
  also have "\<dots> = (\<Sum>g<9. adjustedPopulations inputs ! g)"
    using assms(2) by (intro sum_list_row) (simp add: adjustedPopulations_def)
  also have "\<dots> = (\<Sum>g<9. \<Sum>c<10. nd3_get ?grid c 0 g)"
    by (intro sum.cong) (simp_all add: row)
  finally have total: "totalPopulationByDay (getAllBracketCurves today inputs) ! 0
      = (\<Sum>g<9. \<Sum>c<10. nd3_get ?grid c 0 g)" .
  have fractions: "pInitiallyInfectious + pInitiallyQuarantined + pInitiallyHospitalized
      + pInitiallyIcu + pInitiallyHospitalRecovery + pInitiallyRecoveredMild
      + pInitiallyRecoveredHospitalized + pInitiallyDead = 1"
    by (simp add: initial_defs)
  show ?thesis using fractions row total by blast
qed

theorem day_zero_sums_witness:
  "0 < numDays sampleInputs
   \<and> length (ageGroupPopulations sampleInputs) = 9
   \<and> length (ageGroupInitiallyInfected sampleInputs) = 9
   \<and> (\<Sum>c<10. nd3_get (projectionGrid (getAllBracketCurves 0 sampleInputs)) c 0 0) = 1000
   \<and> totalPopulationByDay (getAllBracketCurves 0 sampleInputs) ! 0 = 1100
   \<and> (\<Sum>g<9. \<Sum>c<10. nd3_get (projectionGrid (getAllBracketCurves 0 sampleInputs)) c 0 g)
       = 1100"
proof -
  have h: "0 < numDays sampleInputs" "length (ageGroupPopulations sampleInputs) = 9"
    "length (ageGroupInitiallyInfected sampleInputs) = 9"
    by (simp_all add: sampleInputs_def)
  have a: "adjustedPopulations sampleInputs ! 0 = 1000"
    by (simp add: adjustedPopulations_def adjustPopulations_nth sampleInputs_def)
  have t: "totalPopulationByDay (getAllBracketCurves 0 sampleInputs) ! 0 = 1100"
    using h(1) by (simp add: tpbd_runPop runPop_def adjustedPopulations_def
        adjustPopulations_def sampleInputs_def)
  note d = conjunct2[OF day_zero_sums[OF h, of 0]]
  have r: "(\<Sum>c<10. nd3_get (projectionGrid (getAllBracketCurves 0 sampleInputs)) c 0 0) = 1000"
    using conjunct1[OF d] a by simp
  have s: "(\<Sum>g<9. \<Sum>c<10. nd3_get (projectionGrid (getAllBracketCurves 0 sampleInputs)) c 0 g)
      = 1100"
    using conjunct2[OF d] t by linarith
  show ?thesis using h r s t by blast
qed

end
